theory Spec2Isabelle
  imports Complex_Main "HOL-Library.AList"
begin

section \<open>Floating-point values of a table cell\<close>

text \<open>
  A cell of a numeric pandas column is a float: a finite number, an infinity or NaN (the
  marker of a missing or undefined value). Finite values are modelled by exact reals, so
  rounding is not modelled, and zero carries no sign. Arithmetic follows IEEE 754: NaN
  propagates, a non-zero number divided by zero is an infinity, zero divided by zero is NaN.
\<close>

datatype fval = Fin real | PInf | NInf | NaN

fun fneg :: "fval \<Rightarrow> fval" where
  "fneg (Fin x) = Fin (- x)"
| "fneg PInf = NInf"
| "fneg NInf = PInf"
| "fneg NaN = NaN"

fun fadd :: "fval \<Rightarrow> fval \<Rightarrow> fval" where
  "fadd (Fin x) (Fin y) = Fin (x + y)"
| "fadd (Fin x) PInf = PInf"
| "fadd (Fin x) NInf = NInf"
| "fadd PInf (Fin y) = PInf"
| "fadd PInf PInf = PInf"
| "fadd PInf NInf = NaN"
| "fadd NInf (Fin y) = NInf"
| "fadd NInf NInf = NInf"
| "fadd NInf PInf = NaN"
| "fadd NaN b = NaN"
| "fadd a NaN = NaN"

definition fsub :: "fval \<Rightarrow> fval \<Rightarrow> fval" where
  "fsub a b = fadd a (fneg b)"

fun fdiv :: "fval \<Rightarrow> fval \<Rightarrow> fval" where
  "fdiv (Fin x) (Fin y) =
     (if y \<noteq> 0 then Fin (x / y)
      else if 0 < x then PInf
      else if x < 0 then NInf
      else NaN)"
| "fdiv (Fin x) PInf = Fin 0"
| "fdiv (Fin x) NInf = Fin 0"
| "fdiv PInf (Fin y) = (if 0 \<le> y then PInf else NInf)"
| "fdiv NInf (Fin y) = (if 0 \<le> y then NInf else PInf)"
| "fdiv PInf PInf = NaN"
| "fdiv PInf NInf = NaN"
| "fdiv NInf PInf = NaN"
| "fdiv NInf NInf = NaN"
| "fdiv NaN b = NaN"
| "fdiv a NaN = NaN"

text \<open>Comparison with a finite number; every comparison with NaN is false.\<close>

fun fgt :: "fval \<Rightarrow> real \<Rightarrow> bool" where
  "fgt (Fin x) c = (c < x)"
| "fgt PInf c = True"
| "fgt NInf c = False"
| "fgt NaN c = False"

fun flt :: "fval \<Rightarrow> real \<Rightarrow> bool" where
  "flt (Fin x) c = (x < c)"
| "flt PInf c = False"
| "flt NInf c = True"
| "flt NaN c = False"

fun isna :: "fval \<Rightarrow> bool" where
  "isna NaN = True"
| "isna v = False"

section \<open>The pandas operations used by main.py\<close>

datatype error = KeyError | ValueError | IndexError

text \<open>
  A Series is the list of its cells in index order. \<open>Series.diff()\<close> subtracts from each
  cell the one before it; the first cell has none and becomes NaN.
\<close>

definition shift1 :: "fval list \<Rightarrow> fval list" where
  "shift1 xs = take (length xs) (NaN # xs)"

definition diff :: "fval list \<Rightarrow> fval list" where
  "diff xs = map2 fsub xs (shift1 xs)"

text \<open>\<open>s.where(cond, other)\<close> keeps a cell where the condition holds and puts \<open>other\<close> elsewhere.\<close>

definition where_else :: "(fval \<Rightarrow> bool) \<Rightarrow> fval \<Rightarrow> fval list \<Rightarrow> fval list" where
  "where_else cond other xs = map (\<lambda>x. if cond x then x else other) xs"

text \<open>
  Window functions first replace the infinities by NaN, and then see each cell as an
  observation or as missing.
\<close>

fun prep_value :: "fval \<Rightarrow> real option" where
  "prep_value (Fin r) = Some r"
| "prep_value v = None"

fun observed :: "real option list \<Rightarrow> real list" where
  "observed [] = []"
| "observed (None # vs) = observed vs"
| "observed (Some r # vs) = r # observed vs"

text \<open>
  \<open>s.rolling(window=w).mean()\<close>: the window of row \<open>i\<close> is the last \<open>w\<close> rows up to and
  including \<open>i\<close> (fewer at the start of the series), \<open>min_periods\<close> defaults to \<open>w\<close>, and the
  result is the mean of the observations of the window when there are at least
  \<open>min_periods\<close> of them (and at least one), NaN otherwise. A negative window is rejected.
\<close>

definition window_obs :: "nat \<Rightarrow> real option list \<Rightarrow> nat \<Rightarrow> real list" where
  "window_obs w vs i = observed (drop (Suc i - w) (take (Suc i) vs))"

definition calc_mean :: "nat \<Rightarrow> real list \<Rightarrow> fval" where
  "calc_mean minp obs =
     (if minp \<le> length obs \<and> 0 < length obs
      then Fin (sum_list obs / real (length obs)) else NaN)"

definition rolling_mean :: "int \<Rightarrow> fval list \<Rightarrow> error + fval list" where
  "rolling_mean window xs =
     (if window < 0 then Inl ValueError
      else let w = nat window; vs = map prep_value xs
           in Inr (map (\<lambda>i. calc_mean w (window_obs w vs i)) [0..<length xs]))"

text \<open>
  \<open>s.ewm(span=n, adjust=False).mean()\<close>: the smoothing factor is \<open>2 / (n + 1)\<close>, and a span
  below 1 is rejected. The loop keeps the running average \<open>weighted\<close> and the weight
  \<open>old_wt\<close> of the past; a missing cell repeats the running average and ages the past
  (\<open>ignore_na=False\<close>), and the average starts at the first observation.
\<close>

fun ewm_loop :: "real \<Rightarrow> real option \<Rightarrow> real \<Rightarrow> real option list \<Rightarrow> real option list" where
  "ewm_loop alpha weighted old_wt [] = []"
| "ewm_loop alpha None old_wt (cur # vs) = cur # ewm_loop alpha cur old_wt vs"
| "ewm_loop alpha (Some w) old_wt (None # vs) =
     Some w # ewm_loop alpha (Some w) (old_wt * (1 - alpha)) vs"
| "ewm_loop alpha (Some w) old_wt (Some c # vs) =
     (let old_wt' = old_wt * (1 - alpha);
          w' = (if w \<noteq> c then (old_wt' * w + alpha * c) / (old_wt' + alpha) else w)
      in Some w' # ewm_loop alpha (Some w') 1 vs)"

fun unprep :: "real option \<Rightarrow> fval" where
  "unprep None = NaN"
| "unprep (Some r) = Fin r"

definition ewm_mean :: "int \<Rightarrow> fval list \<Rightarrow> error + fval list" where
  "ewm_mean span_n xs =
     (if span_n < 1 then Inl ValueError
      else let alpha = 2 / (real_of_int span_n + 1)
           in case map prep_value xs of
                [] \<Rightarrow> Inr []
              | v # vs \<Rightarrow> Inr (map unprep (v # ewm_loop alpha v 1 vs)))"

section \<open>The table\<close>

text \<open>
  A DataFrame read with \<open>index_col='Date'\<close>: the dates of its rows, and its columns in
  order, each named and as long as the index. \<open>df[name]\<close> raises KeyError for a name that is
  no column; \<open>df[name] = s\<close> replaces the column of that name or appends a new one.
\<close>

record frame =
  index :: "string list"
  columns :: "(string \<times> fval list) list"

definition getitem :: "frame \<Rightarrow> string \<Rightarrow> fval list option" where
  "getitem df name = map_of (columns df) name"

definition setitem :: "frame \<Rightarrow> string \<Rightarrow> fval list \<Rightarrow> frame" where
  "setitem df name s = df\<lparr>columns := AList.update name s (columns df)\<rparr>"

text \<open>\<open>df.dropna()\<close> keeps the rows that have no NaN in any column.\<close>

definition row_complete :: "frame \<Rightarrow> nat \<Rightarrow> bool" where
  "row_complete df i = list_all (\<lambda>c. \<not> isna (snd c ! i)) (columns df)"

definition kept_rows :: "frame \<Rightarrow> nat list" where
  "kept_rows df = filter (row_complete df) [0..<length (index df)]"

definition take_rows :: "nat list \<Rightarrow> 'a list \<Rightarrow> 'a list" where
  "take_rows rows xs = map (\<lambda>i. xs ! i) rows"

definition dropna :: "frame \<Rightarrow> frame" where
  "dropna df =
     (let rows = kept_rows df
      in \<lparr>index = take_rows rows (index df),
          columns = map (\<lambda>c. (fst c, take_rows rows (snd c))) (columns df)\<rparr>)"

section \<open>The indicator command\<close>

datatype indicator_type = SMA | EMA | RSI | MACD


definition rsi :: "int \<Rightarrow> fval list \<Rightarrow> error + fval list" where
  "rsi period close =
     (let delta = diff close
      in case rolling_mean period (where_else (\<lambda>d. fgt d 0) (Fin 0) delta) of
           Inl e \<Rightarrow> Inl e
         | Inr gain \<Rightarrow>
          (case rolling_mean period (map fneg (where_else (\<lambda>d. flt d 0) (Fin 0) delta)) of
             Inl e \<Rightarrow> Inl e
           | Inr loss \<Rightarrow>
               let rs = map2 fdiv gain loss
               in Inr (map (\<lambda>r. fsub (Fin 100) (fdiv (Fin 100) (fadd (Fin 1) r))) rs)))"

definition indicator :: "indicator_type \<Rightarrow> int \<Rightarrow> frame \<Rightarrow> error + frame" where
  "indicator indicator_type period df =
     (case getitem df ''Close'' of
        None \<Rightarrow> Inl KeyError
      | Some close \<Rightarrow>
         (case indicator_type of
            SMA \<Rightarrow>
              (case rolling_mean period close of
                 Inl e \<Rightarrow> Inl e
               | Inr sma \<Rightarrow> Inr (dropna (setitem df ''SMA'' sma)))
          | EMA \<Rightarrow>
              (case ewm_mean period close of
                 Inl e \<Rightarrow> Inl e
               | Inr ema \<Rightarrow> Inr (dropna (setitem df ''EMA'' ema)))
          | RSI \<Rightarrow>
              (case rsi period close of
                 Inl e \<Rightarrow> Inl e
               | Inr r \<Rightarrow> Inr (dropna (setitem df ''RSI'' r)))
          | MACD \<Rightarrow>
              (case ewm_mean 12 close of
                 Inl e \<Rightarrow> Inl e
               | Inr ema12 \<Rightarrow>
                  (case ewm_mean 26 close of
                     Inl e \<Rightarrow> Inl e
                   | Inr ema26 \<Rightarrow>
                       let df1 = setitem df ''MACD'' (map2 fsub ema12 ema26)
                       in (case getitem df1 ''MACD'' of
                             None \<Rightarrow> Inl KeyError
                           | Some macd \<Rightarrow>
                              (case ewm_mean 9 macd of
                                 Inl e \<Rightarrow> Inl e
                               | Inr signal \<Rightarrow> Inr (dropna (setitem df1 ''Signal'' signal))))))))"

section \<open>The sample table of the tests\<close>

text \<open>\<open>create_sample_dataframe\<close> of tests/test_cli.py: five daily rows.\<close>

definition create_sample_dataframe :: frame where
  "create_sample_dataframe =
     \<lparr>index = [''2021-01-01'', ''2021-01-02'', ''2021-01-03'', ''2021-01-04'', ''2021-01-05''],
      columns =
        [(''Open'', map Fin [100, 102, 104, 106, 108]),
         (''High'', map Fin [101, 103, 105, 107, 109]),
         (''Low'', map Fin [99, 101, 103, 105, 107]),
         (''Close'', map Fin [100, 102, 104, 106, 108]),
         (''Volume'', map Fin [1000, 1500, 2000, 2500, 3000])]\<rparr>"

section \<open>The moving-average crossover strategy\<close>

text \<open>
  The backtest hands the table to the backtrader engine as a feed of bars. Prices are
  finite numbers here.
\<close>

record bar =
  Open :: real
  High :: real
  Low :: real
  Close :: real
  Volume :: real

text \<open>
  \<open>bt.indicators.SimpleMovingAverage(data, period)\<close>: the mean of the last \<open>period\<close>
  values, with no value before \<open>period\<close> values have been seen.
\<close>

definition SimpleMovingAverage :: "nat \<Rightarrow> real list \<Rightarrow> real option list" where
  "SimpleMovingAverage period xs =
     map (\<lambda>i. if period \<le> Suc i
              then Some (sum_list (drop (Suc i - period) (take (Suc i) xs)) / real period)
              else None)
       [0..<length xs]"

text \<open>
  \<open>bt.indicators.CrossOver(data0, data1)\<close> is \<open>CrossUp - CrossDown\<close>. Both look at the last
  non-zero difference of the two lines before the current bar (\<open>NonZeroDifference\<close>, which
  starts at the first difference, zero or not) and at the order of the two lines on the
  current bar. It has a value one bar after both lines have one.
\<close>

fun NonZeroDifference :: "real option \<Rightarrow> real option list \<Rightarrow> real option list \<Rightarrow> real option list" where
  "NonZeroDifference prev (Some a # d0) (Some b # d1) =
     (let d = a - b;
          nzd = (case prev of None \<Rightarrow> d | Some old \<Rightarrow> if d \<noteq> 0 then d else old)
      in Some nzd # NonZeroDifference (Some nzd) d0 d1)"
| "NonZeroDifference prev (x # d0) (y # d1) = None # NonZeroDifference prev d0 d1"
| "NonZeroDifference prev d0 d1 = []"

definition cross_value :: "real \<Rightarrow> real \<Rightarrow> real \<Rightarrow> real" where
  "cross_value nzd_before a b =
     (if nzd_before < 0 \<and> b < a then 1 else 0) - (if 0 < nzd_before \<and> a < b then 1 else 0)"

definition CrossOver :: "real option list \<Rightarrow> real option list \<Rightarrow> real option list" where
  "CrossOver d0 d1 =
     (let nzd = NonZeroDifference None d0 d1
      in map (\<lambda>i. case (if i = 0 then None else nzd ! (i - 1), d0 ! i, d1 ! i) of
                    (Some n, Some a, Some b) \<Rightarrow> Some (cross_value n a b)
                  | _ \<Rightarrow> None)
           [0..<min (length d0) (length d1)])"

text \<open>\<open>MovingAverageCrossover.__init__\<close>, with the two periods of \<open>params\<close>.\<close>

record MovingAverageCrossover =
  short_ma :: "real option list"
  long_ma :: "real option list"
  crossover :: "real option list"

definition init :: "nat \<Rightarrow> nat \<Rightarrow> bar list \<Rightarrow> MovingAverageCrossover" where
  "init short_period long_period data =
     (let s = SimpleMovingAverage short_period (map Close data);
          l = SimpleMovingAverage long_period (map Close data)
      in \<lparr>short_ma = s, long_ma = l, crossover = CrossOver s l\<rparr>)"

text \<open>
  \<open>MovingAverageCrossover.next\<close>: \<open>self.position\<close> is true when the position's size is not
  zero. \<open>buy()\<close> and \<open>sell()\<close> are called with no size, price or order type: each creates a
  market order for the stake of the sizer.
\<close>

datatype order = Buy | Sell

definition next_bar :: "real \<Rightarrow> real \<Rightarrow> order option" where
  "next_bar position_size cross =
     (if \<not> (position_size \<noteq> 0) then (if 0 < cross then Some Buy else None)
      else if cross < 0 then Some Sell
      else None)"

section \<open>The engine and its broker\<close>

text \<open>
  The broker of \<open>bt.Cerebro()\<close> as \<open>backtest\<close> leaves it: no commission, no slippage, the
  default sizer \<open>FixedSize\<close> with a stake of one unit. A market order created on one bar
  is matched on the next bar at that bar's opening price. A buy is refused (margin) when
  the cash does not cover it, at the closing price of the bar that created it or at the
  opening price that would fill it. An order created on the last bar is never matched.
\<close>

definition stake :: real where
  "stake = 1"

record broker =
  cash :: real
  position :: real
  pending :: "(order \<times> real) option"

definition broker_next :: "broker \<Rightarrow> bar \<Rightarrow> broker" where
  "broker_next b data =
     (case pending b of
        None \<Rightarrow> b
      | Some (Buy, created) \<Rightarrow>
          if 0 \<le> cash b - stake * created \<and> 0 \<le> cash b - stake * Open data
          then b\<lparr>cash := cash b - stake * Open data, position := position b + stake,
                  pending := None\<rparr>
          else b\<lparr>pending := None\<rparr>
      | Some (Sell, created) \<Rightarrow>
          b\<lparr>cash := cash b + stake * Open data, position := position b - stake,
             pending := None\<rparr>)"

text \<open>
  One bar of \<open>cerebro.run()\<close>: the broker matches what is pending, then the strategy's
  \<open>next\<close> runs if every indicator has a value on this bar (before that only \<open>prenext\<close>
  runs, which does nothing). Each bar records the order created on it and the broker after it.
\<close>

fun run :: "broker \<Rightarrow> (bar \<times> real option) list \<Rightarrow> (order option \<times> broker) list" where
  "run b [] = []"
| "run b ((data, cross) # rest) =
     (let b1 = broker_next b data;
          ord = (case cross of None \<Rightarrow> None | Some c \<Rightarrow> next_bar (position b1) c);
          b2 = b1\<lparr>pending := map_option (\<lambda>x. (x, Close data)) ord\<rparr>
      in (ord, b2) # run b2 rest)"

definition setcash :: "real \<Rightarrow> broker" where
  "setcash c = \<lparr>cash = c, position = 0, pending = None\<rparr>"

text \<open>
  \<open>cerebro.run()\<close> in its default mode computes every indicator over the whole feed
  before the first bar is played. The crossover has its first value on the bar after the
  one where both averages have one, at the index \<open>max short_period long_period\<close>, and
  writing that value raises IndexError when the feed has no such bar: a feed of at most
  that many bars aborts the run, the empty feed included.
\<close>

definition minperiod :: "nat \<Rightarrow> nat \<Rightarrow> nat" where
  "minperiod short_period long_period = max short_period long_period + 1"

definition cerebro_run ::
  "nat \<Rightarrow> nat \<Rightarrow> real \<Rightarrow> bar list \<Rightarrow> error + (order option \<times> broker) list" where
  "cerebro_run short_period long_period c data =
     (if length data < minperiod short_period long_period then Inl IndexError
      else Inr (run (setcash c) (zip data (crossover (init short_period long_period data)))))"

text \<open>\<open>os.path.join(a, b)\<close> with the separator of POSIX.\<close>

definition path_join :: "string \<Rightarrow> string \<Rightarrow> string" where
  "path_join a b =
     (case b of
        c # cs \<Rightarrow>
          if c = CHR ''/'' then b
          else if a = [] \<or> last a = CHR ''/'' then a @ b
          else a @ ''/'' @ b
      | [] \<Rightarrow> if a = [] \<or> last a = CHR ''/'' then a else a @ ''/'')"

text \<open>
  The backtest command: the strategy is added with the periods of its \<open>params\<close>, 50 and
  200, and the cash is set to 100000. When the run aborts nothing is written; otherwise
  the result is the path of the result file, which \<open>symbol\<close> and \<open>output\<close> name, with the
  trace of the run. The analyzers and the plot are not modelled.
\<close>

definition backtest ::
  "string \<Rightarrow> bar list \<Rightarrow> string \<Rightarrow> error + string \<times> (order option \<times> broker) list" where
  "backtest symbol data output =
     (case cerebro_run 50 200 100000 data of
        Inl e \<Rightarrow> Inl e
      | Inr results \<Rightarrow> Inr (path_join output (symbol @ ''_backtest_results.json''), results))"

section \<open>Sample bars\<close>

text \<open>
  A series of 252 bars whose four prices are all the close: 150 closes of 2, 50 of 1, one
  of 1000, 50 of 1 and one of 3. The short average crosses above the long one on bar 200
  and below it on bar 250. \<open>sample_feed\<close> is the five rows of the sample table as bars.
\<close>

definition flat_bar :: "real \<Rightarrow> bar" where
  "flat_bar c = \<lparr>Open = c, High = c, Low = c, Close = c, Volume = 0\<rparr>"

definition sample_closes :: "real list" where
  "sample_closes = replicate 150 2 @ replicate 50 1 @ [1000] @ replicate 50 1 @ [3]"

definition sample_bars :: "bar list" where
  "sample_bars = map flat_bar sample_closes"

definition sample_feed :: "bar list" where
  "sample_feed =
     [\<lparr>Open = 100, High = 101, Low = 99, Close = 100, Volume = 1000\<rparr>,
      \<lparr>Open = 102, High = 103, Low = 101, Close = 102, Volume = 1500\<rparr>,
      \<lparr>Open = 104, High = 105, Low = 103, Close = 104, Volume = 2000\<rparr>,
      \<lparr>Open = 106, High = 107, Low = 105, Close = 106, Volume = 2500\<rparr>,
      \<lparr>Open = 108, High = 109, Low = 107, Close = 108, Volume = 3000\<rparr>]"

text \<open>The trace of the run on the 252 sample bars.\<close>

definition sample_trace :: "(order option \<times> broker) list" where
  "sample_trace =
     replicate 200 (None, \<lparr>cash = 100000, position = 0, pending = None\<rparr>) @
     [(Some Buy, \<lparr>cash = 100000, position = 0, pending = Some (Buy, 1000)\<rparr>),
      (None, \<lparr>cash = 99999, position = 1, pending = None\<rparr>)] @
     replicate 48 (None, \<lparr>cash = 99999, position = 1, pending = None\<rparr>) @
     [(Some Sell, \<lparr>cash = 99999, position = 1, pending = Some (Sell, 1)\<rparr>),
      (None, \<lparr>cash = 100002, position = 0, pending = None\<rparr>)]"

section \<open>Notions of the specification\<close>

text \<open>The arithmetic mean of the closes in the window \<open>[i - p + 1, i]\<close>.\<close>

definition window_mean :: "real list \<Rightarrow> nat \<Rightarrow> nat \<Rightarrow> real" where
  "window_mean S p i = sum_list (map (\<lambda>j. S ! j) [Suc i - p..<Suc i]) / real p"

text \<open>
  The recurrence of the exponential moving average: the first value is the first close,
  and each later value is \<open>alpha * close[i] + (1 - alpha) * EMA[i - 1]\<close>.
\<close>

fun ema_rec :: "real \<Rightarrow> real list \<Rightarrow> nat \<Rightarrow> real" where
  "ema_rec alpha S 0 = S ! 0"
| "ema_rec alpha S (Suc i) = alpha * S ! Suc i + (1 - alpha) * ema_rec alpha S i"

text \<open>
  The gain and the loss of a bar: the rise, respectively the fall, of the close since the
  bar before, and 0 on the first bar. \<open>rsi_value\<close> is the formula of the RSI on an
  average gain and an average loss.
\<close>

definition gains :: "real list \<Rightarrow> real list" where
  "gains S = map (\<lambda>i. if i = 0 then 0 else max (S ! i - S ! (i - 1)) 0) [0..<length S]"

definition losses :: "real list \<Rightarrow> real list" where
  "losses S = map (\<lambda>i. if i = 0 then 0 else max (S ! (i - 1) - S ! i) 0) [0..<length S]"

definition rsi_value :: "fval \<Rightarrow> fval \<Rightarrow> fval" where
  "rsi_value g l = fsub (Fin 100) (fdiv (Fin 100) (fadd (Fin 1) (fdiv g l)))"

text \<open>
  The columns an indicator sets, and the periods the library accepts for it: a rolling
  window must not be negative, a span must be at least 1, and MACD reads no period.
\<close>

fun new_names :: "indicator_type \<Rightarrow> string list" where
  "new_names SMA = [''SMA'']"
| "new_names EMA = [''EMA'']"
| "new_names RSI = [''RSI'']"
| "new_names MACD = [''MACD'', ''Signal'']"

fun valid_period :: "indicator_type \<Rightarrow> int \<Rightarrow> bool" where
  "valid_period SMA p = (0 \<le> p)"
| "valid_period EMA p = (1 \<le> p)"
| "valid_period RSI p = (0 \<le> p)"
| "valid_period MACD p = True"

text \<open>
  A broker state of the crossover strategy is consistent when it holds no unit or one
  unit, a pending buy finds no unit held and a pending sell finds one unit held.
\<close>

definition consistent :: "broker \<Rightarrow> bool" where
  "consistent b \<longleftrightarrow>
     (case pending b of
        None \<Rightarrow> position b = 0 \<or> position b = 1
      | Some (Buy, created) \<Rightarrow> position b = 0
      | Some (Sell, created) \<Rightarrow> position b = 1)"

text \<open>
  A table is well formed when its column names are distinct and every column is as long as
  the index; it is complete when no cell is NaN.
\<close>

definition wf_frame :: "frame \<Rightarrow> bool" where
  "wf_frame df \<longleftrightarrow>
     distinct (map fst (columns df)) \<and>
     list_all (\<lambda>c. length (snd c) = length (index df)) (columns df)"

definition complete :: "frame \<Rightarrow> bool" where
  "complete df \<longleftrightarrow> list_all (\<lambda>c. list_all (\<lambda>v. \<not> isna v) (snd c)) (columns df)"

section \<open>Rolling means of a series without missing values\<close>

lemma observed_map_Some: "observed (map Some xs) = xs"
  by (induction xs) auto

lemma prep_value_Fin: "map prep_value (map Fin S) = map Some S"
  by simp

lemma drop_take_nth: "b \<le> length xs \<Longrightarrow> drop a (take b xs) = map (\<lambda>j. xs ! j) [a..<b]"
  by (rule nth_equalityI) auto

lemma window_obs_Some:
  assumes "i < length S"
  shows "window_obs w (map Some S) i = map (\<lambda>j. S ! j) [Suc i - w..<Suc i]"
proof -
  have "window_obs w (map Some S) i = observed (map Some (drop (Suc i - w) (take (Suc i) S)))"
    by (simp only: window_obs_def take_map drop_map)
  also have "\<dots> = drop (Suc i - w) (take (Suc i) S)"
    by (rule observed_map_Some)
  also have "\<dots> = map (\<lambda>j. S ! j) [Suc i - w..<Suc i]"
    using assms by (intro drop_take_nth) simp
  finally show ?thesis .
qed

lemma rolling_mean_length: "rolling_mean p xs = Inr s \<Longrightarrow> length s = length xs"
  by (auto simp: rolling_mean_def Let_def split: if_splits)

lemma calc_mean_window:
  assumes "i < length S"
  shows "calc_mean w (window_obs w (map Some S) i) =
     (if 0 < w \<and> w \<le> Suc i then Fin (window_mean S w i) else NaN)"
proof -
  have len: "length (window_obs w (map Some S) i) = Suc i - (Suc i - w)"
    using assms by (simp only: window_obs_Some length_map length_upt)
  show ?thesis
  proof (cases "0 < w \<and> w \<le> Suc i")
    case True
    then have "Suc i - (Suc i - w) = w" by arith
    with True len assms show ?thesis
      by (simp add: calc_mean_def window_mean_def window_obs_Some del: upt_Suc)
  next
    case False
    then have "w = 0 \<or> Suc i - (Suc i - w) < w" by arith
    with False len show ?thesis
      by (auto simp: calc_mean_def)
  qed
qed

lemma rolling_mean_Fin:
  assumes "0 \<le> p"
  shows "rolling_mean p (map Fin S) =
     Inr (map (\<lambda>i. if 0 < nat p \<and> nat p \<le> Suc i then Fin (window_mean S (nat p) i) else NaN)
            [0..<length S])"
  using assms by (simp add: rolling_mean_def Let_def comp_def calc_mean_window)

lemma filter_ge_upt: "filter (\<lambda>i. a \<le> i) [0..<n] = [a..<n]"
  by (induction n) auto

section \<open>Setting a column and dropping rows\<close>

lemma set_update_subset: "set (AList.update k v al) \<subseteq> insert (k, v) (set al)"
  by (induction al) auto

lemma update_mem: "(k, v) \<in> set (AList.update k v al)"
  by (induction al) auto

lemma complete_nth:
  assumes "complete df" "wf_frame df" "c \<in> set (columns df)" "i < length (index df)"
  shows "\<not> isna (snd c ! i)"
  using assms by (auto simp: complete_def wf_frame_def list_all_iff)

lemma row_complete_setitem:
  assumes "complete df" "wf_frame df" "i < length (index df)"
  shows "row_complete (setitem df k s) i \<longleftrightarrow> \<not> isna (s ! i)"
proof
  assume "row_complete (setitem df k s) i"
  then show "\<not> isna (s ! i)"
    using update_mem [of k s "columns df"]
    by (auto simp: row_complete_def setitem_def list_all_iff)
next
  assume s: "\<not> isna (s ! i)"
  have "\<not> isna (snd c ! i)" if "c \<in> set (AList.update k s (columns df))" for c
  proof -
    from that set_update_subset [of k s "columns df"]
    have "c = (k, s) \<or> c \<in> set (columns df)" by auto
    then show ?thesis
    proof
      assume "c = (k, s)"
      with s show ?thesis by simp
    next
      assume "c \<in> set (columns df)"
      then show ?thesis by (rule complete_nth [OF assms(1,2) _ assms(3)])
    qed
  qed
  then show "row_complete (setitem df k s) i"
    by (simp add: row_complete_def setitem_def list_all_iff)
qed

lemma kept_rows_setitem:
  assumes "complete df" "wf_frame df"
  shows "kept_rows (setitem df k s) = filter (\<lambda>i. \<not> isna (s ! i)) [0..<length (index df)]"
proof -
  have "index (setitem df k s) = index df" by (simp add: setitem_def)
  then show ?thesis
    unfolding kept_rows_def using row_complete_setitem [OF assms]
    by (auto intro: filter_cong)
qed

lemma take_rows_upt: "length xs = n \<Longrightarrow> take_rows [a..<n] xs = drop a xs"
  by (auto simp: take_rows_def intro: nth_equalityI)

lemma map_of_map_snd:
  "map_of (map (\<lambda>c. (fst c, f (snd c))) xs) k = map_option f (map_of xs k)"
  by (induction xs) auto

lemma index_setitem: "index (setitem df k s) = index df"
  by (simp add: setitem_def)

lemma getitem_dropna:
  "getitem (dropna df) name = map_option (take_rows (kept_rows df)) (getitem df name)"
  by (simp add: getitem_def dropna_def Let_def map_of_map_snd)

lemma getitem_setitem:
  "getitem (setitem df k s) name = (if name = k then Some s else getitem df name)"
  by (simp add: getitem_def setitem_def update_conv')

lemma getitem_length:
  "wf_frame df \<Longrightarrow> getitem df name = Some col \<Longrightarrow> length col = length (index df)"
  by (auto simp: wf_frame_def getitem_def list_all_iff dest!: map_of_SomeD)

lemma wf_frame_setitem:
  assumes "wf_frame df" "length s = length (index df)"
  shows "wf_frame (setitem df k s)"
proof -
  have "length (snd c) = length (index df)" if "c \<in> set (AList.update k s (columns df))" for c
  proof -
    from that set_update_subset [of k s "columns df"]
    have "c = (k, s) \<or> c \<in> set (columns df)" by auto
    then show ?thesis using assms by (auto simp: wf_frame_def list_all_iff)
  qed
  moreover have "distinct (map fst (AList.update k s (columns df)))"
    using assms(1) by (simp add: wf_frame_def distinct_update)
  ultimately show ?thesis
    by (simp add: wf_frame_def setitem_def list_all_iff)
qed

lemma complete_setitem:
  assumes "complete df" "list_all (\<lambda>v. \<not> isna v) s"
  shows "complete (setitem df k s)"
proof -
  have "list_all (\<lambda>v. \<not> isna v) (snd c)" if "c \<in> set (AList.update k s (columns df))" for c
  proof -
    from that set_update_subset [of k s "columns df"]
    have "c = (k, s) \<or> c \<in> set (columns df)" by auto
    then show ?thesis using assms by (auto simp: complete_def list_all_iff)
  qed
  then show ?thesis
    by (simp add: complete_def setitem_def list_all_iff)
qed

lemma take_rows_all: "length xs = n \<Longrightarrow> take_rows [0..<n] xs = xs"
  by (simp add: take_rows_upt)

lemma kept_rows_complete:
  assumes "complete df" "wf_frame df"
  shows "kept_rows df = [0..<length (index df)]"
proof -
  have "row_complete df i" if "i < length (index df)" for i
    using complete_nth [OF assms _ that] by (simp add: row_complete_def list_all_iff)
  then show ?thesis by (simp add: kept_rows_def)
qed

lemma dropna_complete:
  assumes "complete df" "wf_frame df"
  shows "dropna df = df"
proof -
  have "map (\<lambda>c. (fst c, take_rows [0..<length (index df)] (snd c))) (columns df) = columns df"
    using assms(2) by (intro map_idI) (auto simp: wf_frame_def list_all_iff take_rows_all)
  then show ?thesis
    by (simp add: dropna_def Let_def kept_rows_complete [OF assms] take_rows_all)
qed

section \<open>SMA\<close>

text \<open>
  C2. For a period \<open>p \<ge> 1\<close> and closes \<open>S\<close> with at least \<open>p\<close> values, the rolling mean
  has one cell per bar, NaN before index \<open>p - 1\<close> and the arithmetic mean of the closes in
  the window \<open>[i - p + 1, i]\<close> from there on, so exactly \<open>length S - p + 1\<close> cells are
  defined; on a table with no missing cell the SMA command emits the rows from index
  \<open>p - 1\<close> on, with these means in the column SMA.
\<close>

theorem sma_window_mean:
  assumes "1 \<le> p" and "nat p \<le> length S"
    and "wf_frame df" and "complete df" and "getitem df ''Close'' = Some (map Fin S)"
  shows "\<exists>sma out.
     rolling_mean p (map Fin S) = Inr sma \<and> length sma = length S \<and>
     (\<forall>i<length S. sma ! i = (if i < nat p - 1 then NaN else Fin (window_mean S (nat p) i))) \<and>
     length (filter (\<lambda>v. \<not> isna v) sma) = length S - nat p + 1 \<and>
     indicator SMA p df = Inr out \<and>
     index out = drop (nat p - 1) (index df) \<and>
     getitem out ''SMA'' = Some (map (\<lambda>i. Fin (window_mean S (nat p) i)) [nat p - 1..<length S])"
proof -
  define w where "w = nat p"
  define f where "f = (\<lambda>i. if 0 < w \<and> w \<le> Suc i then Fin (window_mean S w i) else NaN)"
  define sma where "sma = map f [0..<length S]"
  have w: "0 < w" "w \<le> length S" using assms by (simp_all add: w_def)
  have rm: "rolling_mean p (map Fin S) = Inr sma"
    using assms(1) by (simp add: rolling_mean_Fin sma_def f_def w_def)
  have len: "length sma = length S" by (simp add: sma_def)
  have nth: "sma ! i = (if i < w - 1 then NaN else Fin (window_mean S w i))" if "i < length S" for i
    using that w by (auto simp: sma_def f_def)
  have na: "(\<not> isna (f i)) = (w - 1 \<le> i)" for i
    using w by (auto simp: f_def)
  have flt: "filter (\<lambda>i. \<not> isna (sma ! i)) [0..<length S] = [w - 1..<length S]"
  proof -
    have "filter (\<lambda>i. \<not> isna (sma ! i)) [0..<length S] = filter (\<lambda>i. w - 1 \<le> i) [0..<length S]"
      by (rule filter_cong) (auto simp: sma_def na)
    then show ?thesis by (simp add: filter_ge_upt)
  qed
  have cnt: "length (filter (\<lambda>v. \<not> isna v) sma) = length S - w + 1"
  proof -
    have "filter (\<lambda>v. \<not> isna v) sma = map f (filter (\<lambda>i. w - 1 \<le> i) [0..<length S])"
      by (simp add: sma_def filter_map comp_def na)
    then show ?thesis using w by (simp add: filter_ge_upt)
  qed
  have n: "length (index df) = length S"
    using getitem_length [OF assms(3,5)] by simp
  define out where "out = dropna (setitem df ''SMA'' sma)"
  have ind: "indicator SMA p df = Inr out"
    by (simp add: indicator_def assms(5) rm out_def)
  have kept: "kept_rows (setitem df ''SMA'' sma) = [w - 1..<length S]"
    by (simp add: kept_rows_setitem [OF assms(4,3)] n flt)
  have idx: "index out = drop (w - 1) (index df)"
    by (simp add: out_def dropna_def Let_def kept index_setitem take_rows_upt n)
  have col: "getitem out ''SMA'' = Some (map (\<lambda>i. Fin (window_mean S w i)) [w - 1..<length S])"
  proof -
    have "take_rows [w - 1..<length S] sma = map (\<lambda>i. Fin (window_mean S w i)) [w - 1..<length S]"
      using w by (auto simp: take_rows_def sma_def f_def)
    then show ?thesis
      by (simp add: out_def getitem_dropna getitem_setitem kept)
  qed
  show ?thesis
    using rm len nth cnt ind idx col unfolding w_def by blast
qed

theorem sma_window_mean_witness:
  "(1::int) \<le> 2 \<and> nat 2 \<le> length [100, 102, 104, 106, 108 :: real] \<and>
   wf_frame create_sample_dataframe \<and> complete create_sample_dataframe \<and>
   getitem create_sample_dataframe ''Close'' = Some (map Fin [100, 102, 104, 106, 108]) \<and>
   rolling_mean 2 (map Fin [100, 102, 104, 106, 108]) =
     Inr [NaN, Fin 101, Fin 103, Fin 105, Fin 107] \<and>
   indicator SMA 2 create_sample_dataframe =
     Inr \<lparr>index = [''2021-01-02'', ''2021-01-03'', ''2021-01-04'', ''2021-01-05''],
          columns =
            [(''Open'', map Fin [102, 104, 106, 108]),
             (''High'', map Fin [103, 105, 107, 109]),
             (''Low'', map Fin [101, 103, 105, 107]),
             (''Close'', map Fin [102, 104, 106, 108]),
             (''Volume'', map Fin [1500, 2000, 2500, 3000]),
             (''SMA'', map Fin [101, 103, 105, 107])]\<rparr>"
proof -
  have h: "wf_frame create_sample_dataframe" "complete create_sample_dataframe"
    "getitem create_sample_dataframe ''Close'' = Some (map Fin [100, 102, 104, 106, 108])"
    by code_simp+
  have c: "rolling_mean 2 (map Fin [100, 102, 104, 106, 108]) =
      Inr [NaN, Fin 101, Fin 103, Fin 105, Fin 107]"
    "indicator SMA 2 create_sample_dataframe =
     Inr \<lparr>index = [''2021-01-02'', ''2021-01-03'', ''2021-01-04'', ''2021-01-05''],
          columns =
            [(''Open'', map Fin [102, 104, 106, 108]),
             (''High'', map Fin [103, 105, 107, 109]),
             (''Low'', map Fin [101, 103, 105, 107]),
             (''Close'', map Fin [102, 104, 106, 108]),
             (''Volume'', map Fin [1500, 2000, 2500, 3000]),
             (''SMA'', map Fin [101, 103, 105, 107])]\<rparr>"
    by code_simp+
  from sma_window_mean [of 2 "[100, 102, 104, 106, 108]", OF _ _ h]
  obtain out where "indicator SMA 2 create_sample_dataframe = Inr out"
    by auto
  with h c show ?thesis by simp
qed

section \<open>EMA\<close>

lemma ema_rec_shift:
  "ema_rec alpha (w # c # cs) (Suc i) = ema_rec alpha ((alpha * c + (1 - alpha) * w) # cs) i"
  by (induction i) simp_all

lemma ewm_step:
  "(if w \<noteq> c then ((1 - alpha) * w + alpha * c) / (1 - alpha + alpha) else w) =
   alpha * c + (1 - alpha) * (w::real)"
  by (simp add: algebra_simps)

lemma ewm_loop_Some:
  "ewm_loop alpha (Some w) 1 (map Some cs) =
   map (\<lambda>i. Some (ema_rec alpha (w # cs) (Suc i))) [0..<length cs]"
proof (induction cs arbitrary: w)
  case Nil
  show ?case by simp
next
  case (Cons c cs)
  define w' where "w' = alpha * c + (1 - alpha) * w"
  have "ewm_loop alpha (Some w) 1 (map Some (c # cs)) =
        Some w' # ewm_loop alpha (Some w') 1 (map Some cs)"
    using ewm_step [of w c alpha] by (simp add: Let_def w'_def)
  also have "\<dots> = Some w' # map (\<lambda>i. Some (ema_rec alpha (w' # cs) (Suc i))) [0..<length cs]"
    by (simp only: Cons.IH)
  also have "\<dots> = map (\<lambda>i. Some (ema_rec alpha (w # c # cs) (Suc i))) [0..<length (c # cs)]"
    by (simp add: map_upt_Suc ema_rec_shift w'_def del: upt_Suc ema_rec.simps(2))
  finally show ?case .
qed

lemma ewm_mean_Fin:
  assumes "1 \<le> n"
  shows "ewm_mean n (map Fin S) =
     Inr (map (\<lambda>i. Fin (ema_rec (2 / (real_of_int n + 1)) S i)) [0..<length S])"
proof (cases S)
  case Nil
  with assms show ?thesis by (simp add: ewm_mean_def)
next
  case (Cons c cs)
  with assms show ?thesis
    by (simp add: ewm_mean_def Let_def comp_def ewm_loop_Some map_upt_Suc del: upt_Suc ema_rec.simps(2))
qed

text \<open>
  C3. For a span \<open>n \<ge> 1\<close> (a smaller one is rejected) and a non-empty series of closes
  \<open>S\<close>, the exponentially weighted mean has a value at every index, its first value is
  the first close, and each later value is \<open>\<alpha> * close[i] + (1 - \<alpha>) * EMA[i - 1]\<close> with
  \<open>\<alpha> = 2 / (n + 1)\<close>; on a table with no missing cell the EMA command drops no row.
\<close>

theorem ema_recurrence:
  assumes "1 \<le> n" and "S \<noteq> []"
    and "wf_frame df" and "complete df" and "getitem df ''Close'' = Some (map Fin S)"
  shows "\<exists>ema out.
     ewm_mean n (map Fin S) = Inr ema \<and> length ema = length S \<and>
     ema ! 0 = Fin (S ! 0) \<and>
     (\<forall>i. Suc i < length S \<longrightarrow>
        (\<exists>e. ema ! i = Fin e \<and>
             ema ! Suc i =
               Fin (2 / (real_of_int n + 1) * S ! Suc i + (1 - 2 / (real_of_int n + 1)) * e))) \<and>
     indicator EMA n df = Inr out \<and> index out = index df \<and> getitem out ''EMA'' = Some ema"
proof -
  define alpha where "alpha = 2 / (real_of_int n + 1)"
  define ema where "ema = map (\<lambda>i. Fin (ema_rec alpha S i)) [0..<length S]"
  have e: "ewm_mean n (map Fin S) = Inr ema"
    using assms(1) by (simp add: ewm_mean_Fin ema_def alpha_def)
  have len: "length ema = length S" by (simp add: ema_def)
  have e0: "ema ! 0 = Fin (S ! 0)"
    using assms(2) by (simp add: ema_def)
  have step: "\<exists>e. ema ! i = Fin e \<and> ema ! Suc i = Fin (alpha * S ! Suc i + (1 - alpha) * e)"
    if "Suc i < length S" for i
    using that by (simp add: ema_def)
  have n: "length (index df) = length S"
    using getitem_length [OF assms(3,5)] by simp
  have "list_all (\<lambda>v. \<not> isna v) ema"
    by (simp add: ema_def list_all_iff)
  then have "complete (setitem df ''EMA'' ema)" "wf_frame (setitem df ''EMA'' ema)"
    using assms(3,4) len n by (simp_all add: complete_setitem wf_frame_setitem)
  then have d: "dropna (setitem df ''EMA'' ema) = setitem df ''EMA'' ema"
    by (rule dropna_complete)
  have ind: "indicator EMA n df = Inr (setitem df ''EMA'' ema)"
    by (simp add: indicator_def assms(5) e d)
  show ?thesis
    using e len e0 step ind unfolding alpha_def
    by (auto simp: index_setitem getitem_setitem)
qed

theorem ema_recurrence_witness:
  "(1::int) \<le> 3 \<and> [100, 102, 104, 106, 108 :: real] \<noteq> [] \<and>
   wf_frame create_sample_dataframe \<and> complete create_sample_dataframe \<and>
   getitem create_sample_dataframe ''Close'' = Some (map Fin [100, 102, 104, 106, 108]) \<and>
   ewm_mean 3 (map Fin [100, 102, 104, 106, 108]) =
     Inr [Fin 100, Fin 101, Fin (205 / 2), Fin (417 / 4), Fin (849 / 8)] \<and>
   indicator EMA 3 create_sample_dataframe =
     Inr \<lparr>index = [''2021-01-01'', ''2021-01-02'', ''2021-01-03'', ''2021-01-04'', ''2021-01-05''],
          columns =
            [(''Open'', map Fin [100, 102, 104, 106, 108]),
             (''High'', map Fin [101, 103, 105, 107, 109]),
             (''Low'', map Fin [99, 101, 103, 105, 107]),
             (''Close'', map Fin [100, 102, 104, 106, 108]),
             (''Volume'', map Fin [1000, 1500, 2000, 2500, 3000]),
             (''EMA'', [Fin 100, Fin 101, Fin (205 / 2), Fin (417 / 4), Fin (849 / 8)])]\<rparr>"
proof -
  have h: "wf_frame create_sample_dataframe" "complete create_sample_dataframe"
    "getitem create_sample_dataframe ''Close'' = Some (map Fin [100, 102, 104, 106, 108])"
    by code_simp+
  have c: "ewm_mean 3 (map Fin [100, 102, 104, 106, 108]) =
     Inr [Fin 100, Fin 101, Fin (205 / 2), Fin (417 / 4), Fin (849 / 8)]"
   "indicator EMA 3 create_sample_dataframe =
     Inr \<lparr>index = [''2021-01-01'', ''2021-01-02'', ''2021-01-03'', ''2021-01-04'', ''2021-01-05''],
          columns =
            [(''Open'', map Fin [100, 102, 104, 106, 108]),
             (''High'', map Fin [101, 103, 105, 107, 109]),
             (''Low'', map Fin [99, 101, 103, 105, 107]),
             (''Close'', map Fin [100, 102, 104, 106, 108]),
             (''Volume'', map Fin [1000, 1500, 2000, 2500, 3000]),
             (''EMA'', [Fin 100, Fin 101, Fin (205 / 2), Fin (417 / 4), Fin (849 / 8)])]\<rparr>"
    by code_simp+
  from ema_recurrence [of 3 "[100, 102, 104, 106, 108]", OF _ _ h]
  obtain out where "indicator EMA 3 create_sample_dataframe = Inr out"
    by auto
  with h c show ?thesis by simp
qed

section \<open>MACD\<close>

lemma map2_map_same: "map2 f (map g xs) (map h xs) = map (\<lambda>x. f (g x) (h x)) xs"
  by (induction xs) simp_all

text \<open>
  C6. The MACD command does not read the period: the two averages are the exponentially
  weighted means of the closes with the spans 12 and 26 (smoothing factors 2/13 and 2/27),
  the column MACD is their difference cell by cell, and the column Signal is the
  exponentially weighted mean with span 9 of the column MACD, as recomputing it shows.
\<close>

theorem macd_fixed_spans:
  assumes "wf_frame df" and "complete df" and "getitem df ''Close'' = Some (map Fin S)"
  shows "indicator MACD period df = indicator MACD period' df \<and>
    (\<exists>ema12 ema26 macd signal out.
       ewm_mean 12 (map Fin S) = Inr ema12 \<and>
       ema12 = map (\<lambda>i. Fin (ema_rec (2 / 13) S i)) [0..<length S] \<and>
       ewm_mean 26 (map Fin S) = Inr ema26 \<and>
       ema26 = map (\<lambda>i. Fin (ema_rec (2 / 27) S i)) [0..<length S] \<and>
       length macd = length S \<and>
       (\<forall>i<length S. macd ! i = fsub (ema12 ! i) (ema26 ! i)) \<and>
       ewm_mean 9 macd = Inr signal \<and>
       indicator MACD period df = Inr out \<and> index out = index df \<and>
       getitem out ''MACD'' = Some macd \<and> getitem out ''Signal'' = Some signal)"
proof
  show "indicator MACD period df = indicator MACD period' df"
    by (simp add: indicator_def split: option.splits)
next
  define ema12 where "ema12 = map (\<lambda>i. Fin (ema_rec (2 / 13) S i)) [0..<length S]"
  define ema26 where "ema26 = map (\<lambda>i. Fin (ema_rec (2 / 27) S i)) [0..<length S]"
  define M where "M = map (\<lambda>i. ema_rec (2 / 13) S i - ema_rec (2 / 27) S i) [0..<length S]"
  define signal where "signal = map (\<lambda>i. Fin (ema_rec (2 / 10) M i)) [0..<length M]"
  have e12: "ewm_mean 12 (map Fin S) = Inr ema12"
    using ewm_mean_Fin [of 12 S] by (simp add: ema12_def)
  have e26: "ewm_mean 26 (map Fin S) = Inr ema26"
    using ewm_mean_Fin [of 26 S] by (simp add: ema26_def)
  have m: "map2 fsub ema12 ema26 = map Fin M"
    by (simp add: ema12_def ema26_def M_def map2_map_same fsub_def comp_def)
  have lenM: "length M = length S" by (simp add: M_def)
  have nth: "map Fin M ! i = fsub (ema12 ! i) (ema26 ! i)" if "i < length S" for i
    using that by (simp add: M_def ema12_def ema26_def fsub_def)
  have sg: "ewm_mean 9 (map Fin M) = Inr signal"
    using ewm_mean_Fin [of 9 M] by (simp add: signal_def)
  have n: "length (index df) = length S"
    using getitem_length [OF assms(1,3)] by simp
  define df1 where "df1 = setitem df ''MACD'' (map Fin M)"
  define df2 where "df2 = setitem df1 ''Signal'' signal"
  have "list_all (\<lambda>v. \<not> isna v) (map Fin M)" "list_all (\<lambda>v. \<not> isna v) signal"
    by (simp_all add: signal_def list_all_iff)
  then have "complete df2" "wf_frame df2"
    using assms(1,2) lenM n
    by (simp_all add: df2_def df1_def complete_setitem wf_frame_setitem index_setitem signal_def)
  then have d: "dropna df2 = df2"
    by (rule dropna_complete)
  have ind: "indicator MACD period df = Inr df2"
    by (simp add: indicator_def assms(3) e12 e26 m getitem_setitem sg d [unfolded df2_def df1_def])
       (simp add: df2_def df1_def)
  have "index df2 = index df" "getitem df2 ''MACD'' = Some (map Fin M)"
    "getitem df2 ''Signal'' = Some signal"
    by (simp_all add: df2_def df1_def index_setitem getitem_setitem)
  with e12 e26 lenM nth sg ind
  show "\<exists>ema12 ema26 macd signal out.
       ewm_mean 12 (map Fin S) = Inr ema12 \<and>
       ema12 = map (\<lambda>i. Fin (ema_rec (2 / 13) S i)) [0..<length S] \<and>
       ewm_mean 26 (map Fin S) = Inr ema26 \<and>
       ema26 = map (\<lambda>i. Fin (ema_rec (2 / 27) S i)) [0..<length S] \<and>
       length macd = length S \<and>
       (\<forall>i<length S. macd ! i = fsub (ema12 ! i) (ema26 ! i)) \<and>
       ewm_mean 9 macd = Inr signal \<and>
       indicator MACD period df = Inr out \<and> index out = index df \<and>
       getitem out ''MACD'' = Some macd \<and> getitem out ''Signal'' = Some signal"
    unfolding ema12_def [symmetric] ema26_def [symmetric]
    by (intro exI [of _ ema12] exI [of _ ema26] exI [of _ "map Fin M"] exI [of _ signal]
        exI [of _ df2]) simp
qed

theorem macd_fixed_spans_witness:
  "wf_frame create_sample_dataframe \<and> complete create_sample_dataframe \<and>
   getitem create_sample_dataframe ''Close'' = Some (map Fin [100, 102, 104, 106, 108]) \<and>
   indicator MACD 14 create_sample_dataframe = indicator MACD 3 create_sample_dataframe \<and>
   indicator MACD 14 create_sample_dataframe =
     Inr \<lparr>index = [''2021-01-01'', ''2021-01-02'', ''2021-01-03'', ''2021-01-04'', ''2021-01-05''],
          columns =
            [(''Open'', map Fin [100, 102, 104, 106, 108]),
             (''High'', map Fin [101, 103, 105, 107, 109]),
             (''Low'', map Fin [99, 101, 103, 105, 107]),
             (''Close'', map Fin [100, 102, 104, 106, 108]),
             (''Volume'', map Fin [1000, 1500, 2000, 2500, 3000]),
             (''MACD'',
              [Fin 0, Fin (56 / 351), Fin (54488 / 123201), Fin (35385392 / 43243551),
               Fin (19171898480 / 15178486401)]),
             (''Signal'',
              [Fin 0, Fin (56 / 1755), Fin (351064 / 3080025), Fin (1377528656 / 5405443875),
               Fin (4330537543024 / 9486554000625)])]\<rparr>"
proof -
  have h: "wf_frame create_sample_dataframe" "complete create_sample_dataframe"
    "getitem create_sample_dataframe ''Close'' = Some (map Fin [100, 102, 104, 106, 108])"
    by code_simp+
  have c: "indicator MACD 14 create_sample_dataframe =
     Inr \<lparr>index = [''2021-01-01'', ''2021-01-02'', ''2021-01-03'', ''2021-01-04'', ''2021-01-05''],
          columns =
            [(''Open'', map Fin [100, 102, 104, 106, 108]),
             (''High'', map Fin [101, 103, 105, 107, 109]),
             (''Low'', map Fin [99, 101, 103, 105, 107]),
             (''Close'', map Fin [100, 102, 104, 106, 108]),
             (''Volume'', map Fin [1000, 1500, 2000, 2500, 3000]),
             (''MACD'',
              [Fin 0, Fin (56 / 351), Fin (54488 / 123201), Fin (35385392 / 43243551),
               Fin (19171898480 / 15178486401)]),
             (''Signal'',
              [Fin 0, Fin (56 / 1755), Fin (351064 / 3080025), Fin (1377528656 / 5405443875),
               Fin (4330537543024 / 9486554000625)])]\<rparr>"
    by code_simp
  from macd_fixed_spans [of create_sample_dataframe "[100, 102, 104, 106, 108]" 14 3, OF h]
  have "indicator MACD 14 create_sample_dataframe = indicator MACD 3 create_sample_dataframe"
    by simp
  with h c show ?thesis by simp
qed

section \<open>RSI\<close>

lemma diff_Fin:
  "diff (map Fin S) = map (\<lambda>i. if i = 0 then NaN else Fin (S ! i - S ! (i - 1))) [0..<length S]"
proof (rule nth_equalityI)
  show "length (diff (map Fin S)) = length (map (\<lambda>i. if i = 0 then NaN else Fin (S ! i - S ! (i - 1))) [0..<length S])"
    by (simp add: diff_def shift1_def)
next
  fix i assume "i < length (diff (map Fin S))"
  then have i: "i < length S" by (simp add: diff_def shift1_def)
  then show "diff (map Fin S) ! i = map (\<lambda>i. if i = 0 then NaN else Fin (S ! i - S ! (i - 1))) [0..<length S] ! i"
    by (cases i) (simp_all add: diff_def shift1_def fsub_def)
qed

lemma gains_where:
  "where_else (\<lambda>d. fgt d 0) (Fin 0) (diff (map Fin S)) = map Fin (gains S)"
  by (simp add: diff_Fin where_else_def gains_def max_def)

lemma losses_where:
  "map fneg (where_else (\<lambda>d. flt d 0) (Fin 0) (diff (map Fin S))) = map Fin (losses S)"
  by (simp add: diff_Fin where_else_def losses_def max_def)

lemma window_mean_nonneg:
  assumes "\<And>j. j < length G \<Longrightarrow> 0 \<le> G ! j" "i < length G"
  shows "0 \<le> window_mean G p i"
proof -
  have "0 \<le> sum_list (map (\<lambda>j. G ! j) [Suc i - p..<Suc i])"
    using assms by (intro sum_list_nonneg) auto
  then show ?thesis by (simp add: window_mean_def)
qed

lemma avg_gain_nonneg: "i < length S \<Longrightarrow> 0 \<le> window_mean (gains S) p i"
  by (rule window_mean_nonneg) (simp_all add: gains_def)

lemma avg_loss_nonneg: "i < length S \<Longrightarrow> 0 \<le> window_mean (losses S) p i"
  by (rule window_mean_nonneg) (simp_all add: losses_def)

lemma rsi_value_NaN: "rsi_value NaN NaN = NaN"
  by (simp add: rsi_value_def fsub_def)

lemma rsi_value_Fin:
  assumes "0 \<le> g" "0 \<le> l"
  shows "rsi_value (Fin g) (Fin l) =
     (if l \<noteq> 0 then Fin (100 - 100 / (1 + g / l)) else if 0 < g then Fin 100 else NaN)"
proof -
  have "1 + g / l \<noteq> 0" if "l \<noteq> 0"
  proof -
    from assms have "0 \<le> g / l" by simp
    then show ?thesis by linarith
  qed
  with assms show ?thesis by (auto simp: rsi_value_def fsub_def)
qed


lemma rsi_Fin:
  assumes "0 \<le> p"
  shows "rsi p (map Fin S) =
     Inr (map (\<lambda>i. if 0 < nat p \<and> nat p \<le> Suc i
                   then rsi_value (Fin (window_mean (gains S) (nat p) i))
                          (Fin (window_mean (losses S) (nat p) i))
                   else NaN) [0..<length S])"
proof -
  have l: "length (gains S) = length S" "length (losses S) = length S"
    by (simp_all add: gains_def losses_def)
  show ?thesis
    using assms
    by (simp add: rsi_def Let_def gains_where losses_where rolling_mean_Fin l map2_map_same
        rsi_value_def [symmetric] rsi_value_NaN cong: if_cong)
qed






text \<open>
  C4, as amended. For closes without missing values and a period \<open>p \<ge> 1\<close>, the average
  gain and the average loss are the rolling means of the gains and of the losses over
  \<open>p\<close> bars, NaN exactly on the first \<open>p - 1\<close> bars; the RSI is NaN on the first \<open>p - 1\<close>
  bars, and from index \<open>p - 1\<close> on it is NaN exactly where the average gain and the
  average loss are both 0.
\<close>

theorem rsi_defined:
  assumes "1 \<le> period"
  shows "\<exists>gain loss r.
     rolling_mean period (where_else (\<lambda>d. fgt d 0) (Fin 0) (diff (map Fin S))) = Inr gain \<and>
     rolling_mean period (map fneg (where_else (\<lambda>d. flt d 0) (Fin 0) (diff (map Fin S)))) = Inr loss \<and>
     rsi period (map Fin S) = Inr r \<and> length r = length S \<and>
     (\<forall>i<length S.
        gain ! i = (if i < nat period - 1 then NaN else Fin (window_mean (gains S) (nat period) i)) \<and>
        loss ! i = (if i < nat period - 1 then NaN else Fin (window_mean (losses S) (nat period) i)) \<and>
        (isna (r ! i) \<longleftrightarrow> i < nat period - 1 \<or> gain ! i = Fin 0 \<and> loss ! i = Fin 0))"
proof -
  define w where "w = nat period"
  define G where "G = (\<lambda>i. window_mean (gains S) w i)"
  define L where "L = (\<lambda>i. window_mean (losses S) w i)"
  define gain where "gain = map (\<lambda>i. if w \<le> Suc i then Fin (G i) else NaN) [0..<length S]"
  define loss where "loss = map (\<lambda>i. if w \<le> Suc i then Fin (L i) else NaN) [0..<length S]"
  define r where "r = map (\<lambda>i. if w \<le> Suc i then rsi_value (Fin (G i)) (Fin (L i)) else NaN) [0..<length S]"
  have w: "0 < w" using assms by (simp add: w_def)
  have l: "length (gains S) = length S" "length (losses S) = length S"
    by (simp_all add: gains_def losses_def)
  have g: "rolling_mean period (where_else (\<lambda>d. fgt d 0) (Fin 0) (diff (map Fin S))) = Inr gain"
    using assms by (simp add: gains_where rolling_mean_Fin l gain_def G_def w_def)
  have ls: "rolling_mean period (map fneg (where_else (\<lambda>d. flt d 0) (Fin 0) (diff (map Fin S)))) = Inr loss"
    using assms by (simp add: losses_where rolling_mean_Fin l loss_def L_def w_def)
  have rs: "rsi period (map Fin S) = Inr r"
    using assms by (simp add: rsi_Fin r_def G_def L_def w_def)
  have len: "length r = length S" by (simp add: r_def)
  have nn: "0 \<le> G i" "0 \<le> L i" if "i < length S" for i
    using that by (simp_all add: G_def L_def avg_gain_nonneg avg_loss_nonneg)
  have pt: "gain ! i = (if i < w - 1 then NaN else Fin (G i)) \<and>
        loss ! i = (if i < w - 1 then NaN else Fin (L i)) \<and>
        (isna (r ! i) \<longleftrightarrow> i < w - 1 \<or> gain ! i = Fin 0 \<and> loss ! i = Fin 0)"
    if i: "i < length S" for i
  proof (cases "w \<le> Suc i")
    case False
    with i w show ?thesis by (simp add: gain_def loss_def r_def)
  next
    case True
    then have ni: "\<not> i < w - 1" by arith
    from True i have "r ! i = rsi_value (Fin (G i)) (Fin (L i))" "gain ! i = Fin (G i)"
      "loss ! i = Fin (L i)"
      by (simp_all add: r_def gain_def loss_def)
    with ni nn [OF i] show ?thesis
      by (auto simp: rsi_value_Fin)
  qed
  from g ls rs len pt show ?thesis unfolding G_def L_def w_def by blast
qed

theorem rsi_defined_witness:
  "(1::int) \<le> 2 \<and>
   rolling_mean 2 (where_else (\<lambda>d. fgt d 0) (Fin 0) (diff (map Fin [100, 102, 101, 101, 101, 99]))) =
     Inr [NaN, Fin 1, Fin 1, Fin 0, Fin 0, Fin 0] \<and>
   rolling_mean 2 (map fneg (where_else (\<lambda>d. flt d 0) (Fin 0) (diff (map Fin [100, 102, 101, 101, 101, 99])))) =
     Inr [NaN, Fin 0, Fin (1 / 2), Fin (1 / 2), Fin 0, Fin 1] \<and>
   rsi 2 (map Fin [100, 102, 101, 101, 101, 99]) = Inr [NaN, Fin 100, Fin (200 / 3), Fin 0, NaN, Fin 0]"
proof -
  have c: "rolling_mean 2 (where_else (\<lambda>d. fgt d 0) (Fin 0) (diff (map Fin [100, 102, 101, 101, 101, 99]))) =
     Inr [NaN, Fin 1, Fin 1, Fin 0, Fin 0, Fin 0]"
    "rolling_mean 2 (map fneg (where_else (\<lambda>d. flt d 0) (Fin 0) (diff (map Fin [100, 102, 101, 101, 101, 99])))) =
     Inr [NaN, Fin 0, Fin (1 / 2), Fin (1 / 2), Fin 0, Fin 1]"
    "rsi 2 (map Fin [100, 102, 101, 101, 101, 99]) = Inr [NaN, Fin 100, Fin (200 / 3), Fin 0, NaN, Fin 0]"
    by code_simp+
  from rsi_defined [of 2 "[100, 102, 101, 101, 101, 99]"]
  obtain r where "rsi 2 (map Fin [100, 102, 101, 101, 101, 99]) = Inr r"
    by auto
  with c show ?thesis by simp
qed

text \<open>
  Three equal closes and the period 2: the average gain and the average loss are defined
  (and 0) at the indices 1 and 2, where the RSI is NaN, and the command emits no row.
\<close>

theorem rsi_defined_counterexample:
  "rolling_mean 2 (where_else (\<lambda>d. fgt d 0) (Fin 0) (diff (map Fin [100, 100, 100]))) =
     Inr [NaN, Fin 0, Fin 0] \<and>
   rolling_mean 2 (map fneg (where_else (\<lambda>d. flt d 0) (Fin 0) (diff (map Fin [100, 100, 100])))) =
     Inr [NaN, Fin 0, Fin 0] \<and>
   rsi 2 (map Fin [100, 100, 100]) = Inr [NaN, NaN, NaN] \<and>
   indicator RSI 2 \<lparr>index = [''d1'', ''d2'', ''d3''],
                     columns = [(''Close'', map Fin [100, 100, 100])]\<rparr> =
     Inr \<lparr>index = [], columns = [(''Close'', []), (''RSI'', [])]\<rparr>"
  by code_simp

section \<open>The emitted table\<close>

lemma rolling_mean_Inr: "0 \<le> p \<Longrightarrow> \<exists>s. rolling_mean p xs = Inr s"
  by (simp add: rolling_mean_def Let_def)

lemma ewm_mean_Inr: "1 \<le> p \<Longrightarrow> \<exists>s. ewm_mean p xs = Inr s"
  by (simp add: ewm_mean_def Let_def split: list.splits)

lemma rsi_Inr: "0 \<le> p \<Longrightarrow> \<exists>r. rsi p xs = Inr r"
  by (simp add: rsi_def rolling_mean_def Let_def)

lemma indicator_new:
  assumes "getitem df ''Close'' = Some close" "valid_period t p"
  shows "\<exists>new. indicator t p df = Inr (dropna new) \<and>
     ((\<exists>s. new = setitem df (new_names t ! 0) s \<and> length (new_names t) = 1) \<or>
      (\<exists>s s'. new = setitem (setitem df (new_names t ! 0) s) (new_names t ! 1) s' \<and>
         length (new_names t) = 2))"
proof (cases t)
  case SMA
  with assms rolling_mean_Inr [of p close] show ?thesis
    by (auto simp: indicator_def)
next
  case EMA
  with assms ewm_mean_Inr [of p close] show ?thesis
    by (auto simp: indicator_def)
next
  case RSI
  with assms rsi_Inr [of p close] show ?thesis
    by (auto simp: indicator_def)
next
  case MACD
  obtain e12 e26 where e: "ewm_mean 12 close = Inr e12" "ewm_mean 26 close = Inr e26"
    using ewm_mean_Inr [of 12 close] ewm_mean_Inr [of 26 close] by auto
  obtain sg where sg: "ewm_mean 9 (map2 fsub e12 e26) = Inr sg"
    using ewm_mean_Inr [of 9 "map2 fsub e12 e26"] by auto
  from MACD assms e sg show ?thesis
    by (auto simp: indicator_def getitem_setitem)
qed

lemma distinct_setitem:
  "distinct (map fst (columns df)) \<Longrightarrow> distinct (map fst (columns (setitem df k s)))"
  by (simp add: setitem_def distinct_update)

lemma kept_rows_set:
  assumes "distinct (map fst (columns df))"
  shows "set (kept_rows df) =
     {i. i < length (index df) \<and> (\<forall>name col. getitem df name = Some col \<longrightarrow> \<not> isna (col ! i))}"
proof -
  have "row_complete df i \<longleftrightarrow> (\<forall>name col. getitem df name = Some col \<longrightarrow> \<not> isna (col ! i))" for i
    using assms by (auto simp: row_complete_def list_all_iff getitem_def)
  then show ?thesis by (auto simp: kept_rows_def)
qed

lemma kept_rows_sorted: "sorted (kept_rows df) \<and> distinct (kept_rows df)"
  by (simp add: kept_rows_def sorted_wrt_filter)

text \<open>
  C7, as amended. For a well-formed table with a column Close and a period the library
  accepts, the command emits \<open>dropna\<close> of the table \<open>new\<close>, which is the input with the
  indicator's columns set (every other name reads as in the input, the index is the
  same): the rows kept are, in order, exactly the rows with no NaN in any column of
  \<open>new\<close>, the indicator's or not, and every column of the result is the column of \<open>new\<close>
  restricted to these rows.
\<close>

theorem indicator_output:
  assumes "wf_frame df" and "getitem df ''Close'' = Some close"
    and "valid_period indicator_type period"
  shows "\<exists>new out.
     indicator indicator_type period df = Inr out \<and> out = dropna new \<and>
     index new = index df \<and>
     (\<forall>name\<in>set (new_names indicator_type). getitem new name \<noteq> None) \<and>
     (\<forall>name. name \<notin> set (new_names indicator_type) \<longrightarrow> getitem new name = getitem df name) \<and>
     sorted (kept_rows new) \<and> distinct (kept_rows new) \<and>
     set (kept_rows new) =
       {i. i < length (index df) \<and>
           (\<forall>name col. getitem new name = Some col \<longrightarrow> \<not> isna (col ! i))} \<and>
     index out = take_rows (kept_rows new) (index df) \<and>
     (\<forall>name. getitem out name = map_option (take_rows (kept_rows new)) (getitem new name))"
proof -
  from indicator_new [OF assms(2,3)] obtain new where
    ind: "indicator indicator_type period df = Inr (dropna new)" and
    new: "(\<exists>s. new = setitem df (new_names indicator_type ! 0) s \<and>
            length (new_names indicator_type) = 1) \<or>
      (\<exists>s s'. new = setitem (setitem df (new_names indicator_type ! 0) s)
           (new_names indicator_type ! 1) s' \<and> length (new_names indicator_type) = 2)"
    by blast
  have d: "distinct (map fst (columns df))"
    using assms(1) by (simp add: wf_frame_def)
  have names: "set (new_names indicator_type) = set (map (\<lambda>i. new_names indicator_type ! i) [0..<length (new_names indicator_type)])"
    by (simp add: map_nth)
  from new have p: "index new = index df \<and> distinct (map fst (columns new)) \<and>
     (\<forall>name\<in>set (new_names indicator_type). getitem new name \<noteq> None) \<and>
     (\<forall>name. name \<notin> set (new_names indicator_type) \<longrightarrow> getitem new name = getitem df name)"
  proof
    assume "\<exists>s. new = setitem df (new_names indicator_type ! 0) s \<and>
            length (new_names indicator_type) = 1"
    then obtain s where s: "new = setitem df (new_names indicator_type ! 0) s"
      "length (new_names indicator_type) = 1" by blast
    then have "set (new_names indicator_type) = {new_names indicator_type ! 0}"
      by (subst names) simp
    with s d show ?thesis
      by (simp add: index_setitem distinct_setitem getitem_setitem)
  next
    assume "\<exists>s s'. new = setitem (setitem df (new_names indicator_type ! 0) s)
           (new_names indicator_type ! 1) s' \<and> length (new_names indicator_type) = 2"
    then obtain s s' where s: "new = setitem (setitem df (new_names indicator_type ! 0) s)
           (new_names indicator_type ! 1) s'"
      "length (new_names indicator_type) = 2" by blast
    then have "set (new_names indicator_type) = {new_names indicator_type ! 0, new_names indicator_type ! 1}"
      by (subst names) (auto simp: upt_rec numeral_2_eq_2)
    with s d show ?thesis
      by (simp add: index_setitem distinct_setitem getitem_setitem)
  qed
  then have k: "set (kept_rows new) =
       {i. i < length (index df) \<and>
           (\<forall>name col. getitem new name = Some col \<longrightarrow> \<not> isna (col ! i))}"
    using kept_rows_set [of new] by simp
  have i: "index (dropna new) = take_rows (kept_rows new) (index df)"
    using p by (simp add: dropna_def Let_def)
  from ind p k i kept_rows_sorted [of new] getitem_dropna [of new] show ?thesis
    by blast
qed

theorem indicator_output_witness:
  "wf_frame \<lparr>index = [''d1'', ''d2'', ''d3''],
      columns = [(''Close'', [Fin 1, Fin 2, Fin 3]), (''X'', [Fin 1, Fin 2, NaN])]\<rparr> \<and>
   getitem \<lparr>index = [''d1'', ''d2'', ''d3''],
      columns = [(''Close'', [Fin 1, Fin 2, Fin 3]), (''X'', [Fin 1, Fin 2, NaN])]\<rparr> ''Close'' = Some [Fin 1, Fin 2, Fin 3] \<and>
   valid_period SMA 2 \<and>
   indicator SMA 2 \<lparr>index = [''d1'', ''d2'', ''d3''],
      columns = [(''Close'', [Fin 1, Fin 2, Fin 3]), (''X'', [Fin 1, Fin 2, NaN])]\<rparr> =
     Inr \<lparr>index = [''d2''],
          columns = [(''Close'', [Fin 2]), (''X'', [Fin 2]), (''SMA'', [Fin (3 / 2)])]\<rparr>"
proof -
  have h: "wf_frame \<lparr>index = [''d1'', ''d2'', ''d3''],
      columns = [(''Close'', [Fin 1, Fin 2, Fin 3]), (''X'', [Fin 1, Fin 2, NaN])]\<rparr>"
    "getitem \<lparr>index = [''d1'', ''d2'', ''d3''],
      columns = [(''Close'', [Fin 1, Fin 2, Fin 3]), (''X'', [Fin 1, Fin 2, NaN])]\<rparr> ''Close'' = Some [Fin 1, Fin 2, Fin 3]"
    "valid_period SMA 2"
    by code_simp+
  have c: "indicator SMA 2 \<lparr>index = [''d1'', ''d2'', ''d3''],
      columns = [(''Close'', [Fin 1, Fin 2, Fin 3]), (''X'', [Fin 1, Fin 2, NaN])]\<rparr> =
     Inr \<lparr>index = [''d2''],
          columns = [(''Close'', [Fin 2]), (''X'', [Fin 2]), (''SMA'', [Fin (3 / 2)])]\<rparr>"
    by code_simp
  from indicator_output [OF h]
  obtain out where "indicator SMA 2 \<lparr>index = [''d1'', ''d2'', ''d3''],
      columns = [(''Close'', [Fin 1, Fin 2, Fin 3]), (''X'', [Fin 1, Fin 2, NaN])]\<rparr> = Inr out"
    by blast
  with h c show ?thesis by simp
qed

text \<open>
  With the period 1 the column SMA has a value in every row, but the third row, which has
  a NaN in the column X of the input, is not emitted.
\<close>

theorem indicator_output_counterexample:
  "rolling_mean 1 [Fin 1, Fin 2, Fin 3] = Inr [Fin 1, Fin 2, Fin 3] \<and>
   indicator SMA 1 \<lparr>index = [''d1'', ''d2'', ''d3''],
      columns = [(''Close'', [Fin 1, Fin 2, Fin 3]), (''X'', [Fin 1, Fin 2, NaN])]\<rparr> =
     Inr \<lparr>index = [''d1'', ''d2''],
          columns = [(''Close'', [Fin 1, Fin 2]), (''X'', [Fin 1, Fin 2]),
                     (''SMA'', [Fin 1, Fin 2])]\<rparr>"
  by code_simp

section \<open>Periods that leave no window\<close>

lemma observed_length: "length (observed vs) \<le> length vs"
  by (induction vs rule: observed.induct) auto

lemma window_obs_length: "length (window_obs w vs i) \<le> min w (Suc i)"
proof -
  have "length (window_obs w vs i) \<le> length (drop (Suc i - w) (take (Suc i) vs))"
    unfolding window_obs_def by (rule observed_length)
  also have "\<dots> \<le> min w (Suc i)" by (simp add: min_def) arith
  finally show ?thesis .
qed

lemma calc_mean_short:
  assumes "w = 0 \<or> Suc i < w"
  shows "calc_mean w (window_obs w vs i) = NaN"
  using assms window_obs_length [of w vs i] by (auto simp: calc_mean_def)

lemma rolling_mean_all_NaN:
  assumes "period = 0 \<or> int (length xs) < period"
  shows "rolling_mean period xs = Inr (map (\<lambda>i. NaN) [0..<length xs])"
proof -
  have "calc_mean (nat period) (window_obs (nat period) vs i) = NaN" if "i < length xs" for i vs
    using assms that by (intro calc_mean_short) auto
  with assms show ?thesis
    by (auto simp: rolling_mean_def Let_def)
qed

lemma kept_rows_all_NaN:
  assumes "(k, s) \<in> set (columns df)" "\<And>i. i < length (index df) \<Longrightarrow> isna (s ! i)"
  shows "kept_rows df = []"
proof -
  have "\<not> row_complete df i" if "i < length (index df)" for i
    using assms(1) assms(2) [OF that]
    by (auto simp: row_complete_def list_all_iff intro!: bexI [of _ "(k, s)"])
  then show ?thesis
    by (simp add: kept_rows_def filter_empty_conv)
qed

text \<open>
  C8, as amended. On a well-formed table with a column Close, a negative period makes the
  SMA command fail with the library's ValueError; the period 0 and a period greater than
  the number of rows do not fail: every cell of the rolling mean is NaN, every row is
  dropped and the command returns the empty table.
\<close>

theorem sma_no_validation:
  assumes "wf_frame df" and "getitem df ''Close'' = Some close"
  shows "(period < 0 \<longrightarrow> indicator SMA period df = Inl ValueError) \<and>
    (period = 0 \<or> int (length close) < period \<longrightarrow>
       (\<exists>out. indicator SMA period df = Inr out \<and> index out = [] \<and>
          list_all (\<lambda>c. snd c = []) (columns out) \<and> getitem out ''SMA'' = Some []))"
proof (intro conjI impI)
  assume "period < 0"
  then show "indicator SMA period df = Inl ValueError"
    by (simp add: indicator_def assms(2) rolling_mean_def)
next
  assume p: "period = 0 \<or> int (length close) < period"
  define sma where "sma = map (\<lambda>i. NaN) [0..<length close]"
  define new where "new = setitem df ''SMA'' sma"
  have n: "length (index df) = length close"
    using getitem_length [OF assms] by simp
  have "(''SMA'', sma) \<in> set (columns new)"
    by (simp add: new_def setitem_def update_mem)
  moreover have "isna (sma ! i)" if "i < length (index new)" for i
    using that by (simp add: new_def index_setitem n sma_def)
  ultimately have k: "kept_rows new = []"
    by (rule kept_rows_all_NaN)
  have ind: "indicator SMA period df = Inr (dropna new)"
    using rolling_mean_all_NaN [OF p] by (simp add: indicator_def assms(2) new_def sma_def)
  have "index (dropna new) = []" "list_all (\<lambda>c. snd c = []) (columns (dropna new))"
    by (simp_all add: dropna_def Let_def k take_rows_def list_all_iff)
  moreover have "getitem new ''SMA'' = Some sma"
    by (simp add: new_def getitem_setitem)
  then have "getitem (dropna new) ''SMA'' = Some []"
    by (simp add: getitem_dropna k take_rows_def)
  ultimately show "\<exists>out. indicator SMA period df = Inr out \<and> index out = [] \<and>
          list_all (\<lambda>c. snd c = []) (columns out) \<and> getitem out ''SMA'' = Some []"
    using ind by blast
qed

theorem sma_no_validation_witness:
  "wf_frame create_sample_dataframe \<and>
   getitem create_sample_dataframe ''Close'' = Some (map Fin [100, 102, 104, 106, 108]) \<and>
   (-1::int) < 0 \<and> indicator SMA (-1) create_sample_dataframe = Inl ValueError \<and>
   int (length (map Fin [100, 102, 104, 106, 108])) < 6 \<and>
   indicator SMA 6 create_sample_dataframe =
     Inr \<lparr>index = [],
          columns = [(''Open'', []), (''High'', []), (''Low'', []), (''Close'', []),
                     (''Volume'', []), (''SMA'', [])]\<rparr>"
proof -
  have h: "wf_frame create_sample_dataframe"
    "getitem create_sample_dataframe ''Close'' = Some (map Fin [100, 102, 104, 106, 108])"
    by code_simp+
  have c: "indicator SMA 6 create_sample_dataframe =
     Inr \<lparr>index = [],
          columns = [(''Open'', []), (''High'', []), (''Low'', []), (''Close'', []),
                     (''Volume'', []), (''SMA'', [])]\<rparr>"
    by code_simp
  from sma_no_validation [OF h, of "-1"]
  have "indicator SMA (-1) create_sample_dataframe = Inl ValueError"
    by simp
  moreover from sma_no_validation [OF h, of 6]
  obtain out where "indicator SMA 6 create_sample_dataframe = Inr out"
    by auto
  ultimately show ?thesis using h c by simp
qed

text \<open>The periods 6 and 0 on the five rows of the sample: no error, an empty table.\<close>

theorem sma_no_validation_counterexample:
  "indicator SMA 6 create_sample_dataframe =
     Inr \<lparr>index = [],
          columns = [(''Open'', []), (''High'', []), (''Low'', []), (''Close'', []),
                     (''Volume'', []), (''SMA'', [])]\<rparr> \<and>
   indicator SMA 0 create_sample_dataframe =
     Inr \<lparr>index = [],
          columns = [(''Open'', []), (''High'', []), (''Low'', []), (''Close'', []),
                     (''Volume'', []), (''SMA'', [])]\<rparr>"
  by code_simp

section \<open>The run of the strategy\<close>

lemma run_length: "length (run b xs) = length xs"
  by (induction xs arbitrary: b) (auto simp: Let_def)

lemma run_Cons_nth:
  "run b (x # xs) ! Suc i = run (snd (run b (x # xs) ! 0)) xs ! i"
  by (cases x) (simp add: Let_def)

lemma run_nth:
  assumes "i < length xs"
  shows "run b xs ! i =
     (let before = (if i = 0 then b else snd (run b xs ! (i - 1)));
          b1 = broker_next before (fst (xs ! i));
          ord = (case snd (xs ! i) of None \<Rightarrow> None | Some c \<Rightarrow> next_bar (position b1) c)
      in (ord, b1\<lparr>pending := map_option (\<lambda>x. (x, Close (fst (xs ! i)))) ord\<rparr>))"
  using assms
proof (induction xs arbitrary: b i)
  case Nil
  then show ?case by simp
next
  case (Cons x xs)
  show ?case
  proof (cases i)
    case 0
    then show ?thesis by (cases x) (simp add: Let_def)
  next
    case (Suc j)
    with Cons.prems have j: "j < length xs" by simp
    show ?thesis
    proof (cases j)
      case 0
      with Suc j Cons.IH [OF j, of "snd (run b (x # xs) ! 0)"] show ?thesis
        by (simp add: run_Cons_nth del: run.simps)
    next
      case (Suc k)
      with \<open>i = Suc j\<close> j Cons.IH [OF j, of "snd (run b (x # xs) ! 0)"] show ?thesis
        by (simp add: run_Cons_nth del: run.simps)
    qed
  qed
qed

lemma broker_next_consistent:
  assumes "consistent b"
  shows "pending (broker_next b d) = None"
    and "position (broker_next b d) = 0 \<or> position (broker_next b d) = 1"
  using assms
  by (auto simp: consistent_def broker_next_def stake_def split: option.splits order.splits)

lemma step_consistent:
  assumes "pending b1 = None" "position b1 = 0 \<or> position b1 = 1"
  shows "consistent (b1\<lparr>pending := map_option (\<lambda>x. (x, p))
           (case cross of None \<Rightarrow> None | Some c \<Rightarrow> next_bar (position b1) c)\<rparr>)"
  using assms
  by (auto simp: consistent_def next_bar_def split: option.splits order.splits)

lemma run_consistent:
  assumes "consistent b" "i < length xs"
  shows "consistent (snd (run b xs ! i))"
  using assms
proof (induction xs arbitrary: b i)
  case Nil
  then show ?case by simp
next
  case (Cons x xs)
  obtain d cross where x: "x = (d, cross)" by (cases x)
  define b2 where "b2 = snd (run b (x # xs) ! 0)"
  have c2: "consistent b2"
    using broker_next_consistent [OF Cons.prems(1), of d]
    by (simp add: b2_def x Let_def step_consistent)
  show ?case
  proof (cases i)
    case 0
    with c2 show ?thesis by (simp add: b2_def)
  next
    case (Suc j)
    with Cons.prems have "j < length xs" by simp
    from Cons.IH [OF c2 this] Suc show ?thesis
      by (simp add: run_Cons_nth b2_def del: run.simps)
  qed
qed

lemma run_prenext:
  assumes "pending b = None" "\<And>x. x \<in> set xs \<Longrightarrow> snd x = None"
  shows "run b xs = map (\<lambda>x. (None, b)) xs"
  using assms
proof (induction xs)
  case Nil
  show ?case by simp
next
  case (Cons x xs)
  obtain d where x: "x = (d, None)"
    using Cons.prems(2) [of x] by (cases x) simp
  have bn: "broker_next b d = b"
    using Cons.prems(1) by (simp add: broker_next_def)
  have eq: "b\<lparr>pending := None\<rparr> = b"
    using Cons.prems(1) by simp
  have "run b (x # xs) = (None, b) # run b xs"
    by (simp add: x Let_def bn eq)
  with Cons show ?case by simp
qed

lemma SimpleMovingAverage_nth:
  assumes "i < length xs"
  shows "SimpleMovingAverage p xs ! i =
     (if p \<le> Suc i then Some (window_mean xs p i) else None)"
  using assms by (simp add: SimpleMovingAverage_def window_mean_def drop_take_nth del: upt_Suc)

lemma SimpleMovingAverage_length: "length (SimpleMovingAverage p xs) = length xs"
  by (simp add: SimpleMovingAverage_def)

lemma CrossOver_length: "length (CrossOver d0 d1) = min (length d0) (length d1)"
  by (simp add: CrossOver_def Let_def)

lemma crossover_length: "length (crossover (init s l data)) = length data"
  by (simp add: init_def Let_def CrossOver_length SimpleMovingAverage_length)

lemma CrossOver_None:
  assumes "i < length d0" "i < length d1" "d1 ! i = None"
  shows "CrossOver d0 d1 ! i = None"
  using assms by (simp add: CrossOver_def Let_def split: option.splits)

lemma crossover_short:
  assumes "length data < l" "x \<in> set (zip data (crossover (init s l data)))"
  shows "snd x = None"
proof -
  from assms(2) obtain i where i: "i < length data" "x = (data ! i, crossover (init s l data) ! i)"
    by (auto simp: in_set_zip crossover_length)
  have "SimpleMovingAverage l (map Close data) ! i = None"
    using i(1) assms(1) by (simp add: SimpleMovingAverage_nth)
  then have "CrossOver (SimpleMovingAverage s (map Close data)) (SimpleMovingAverage l (map Close data)) ! i = None"
    using i(1) by (intro CrossOver_None) (simp_all add: SimpleMovingAverage_length)
  with i(2) show ?thesis by (simp add: init_def Let_def)
qed

lemma consistent_setcash: "consistent (setcash c)"
  by (simp add: consistent_def setcash_def)

lemma backtest_run:
  assumes "200 < length data"
  shows "backtest symbol data output =
     Inr (path_join output (symbol @ ''_backtest_results.json''),
          run (setcash 100000) (zip data (crossover (init 50 200 data))))"
  using assms by (simp add: backtest_def cerebro_run_def minperiod_def)

lemma backtest_abort:
  assumes "length data \<le> 200"
  shows "backtest symbol data output = Inl IndexError"
  using assms by (simp add: backtest_def cerebro_run_def minperiod_def)

lemma fill_cases:
  assumes "consistent b"
  shows "case pending b of
       None \<Rightarrow> cash (broker_next b d) = cash b \<and> position (broker_next b d) = position b
     | Some (Buy, created) \<Rightarrow>
         position b = 0 \<and>
         (if created \<le> cash b \<and> Open d \<le> cash b
          then cash (broker_next b d) = cash b - Open d \<and> position (broker_next b d) = 1
          else cash (broker_next b d) = cash b \<and> position (broker_next b d) = 0)
     | Some (Sell, created) \<Rightarrow>
         position b = 1 \<and> cash (broker_next b d) = cash b + Open d \<and>
         position (broker_next b d) = 0"
  using assms
  by (auto simp: consistent_def broker_next_def stake_def split: option.splits order.splits)

section \<open>The run on the sample bars\<close>

lemma SimpleMovingAverage_nth_sum:
  assumes "i < length xs"
  shows "SimpleMovingAverage p xs ! i =
     (if p \<le> Suc i then Some (sum_list (drop (Suc i - p) (take (Suc i) xs)) / real p) else None)"
  using assms by (simp add: SimpleMovingAverage_def del: upt_Suc)

lemma NonZeroDifference_length:
  "length (NonZeroDifference prev d0 d1) = min (length d0) (length d1)"
  by (induction prev d0 d1 rule: NonZeroDifference.induct) (simp_all add: Let_def)

lemma NonZeroDifference_None:
  assumes "i < length d0" "i < length d1" "d0 ! i = None \<or> d1 ! i = None"
  shows "NonZeroDifference prev d0 d1 ! i = None"
  using assms
  by (induction prev d0 d1 arbitrary: i rule: NonZeroDifference.induct)
     (auto simp: Let_def nth_Cons split: nat.splits)

lemma NonZeroDifference_nonzero:
  assumes "i < length d0" "i < length d1" "d0 ! i = Some a" "d1 ! i = Some b" "a \<noteq> b"
  shows "NonZeroDifference prev d0 d1 ! i = Some (a - b)"
  using assms
  by (induction prev d0 d1 arbitrary: i rule: NonZeroDifference.induct)
     (auto simp: Let_def nth_Cons split: nat.splits option.splits)

lemma CrossOver_nth:
  assumes "i < length d0" "i < length d1"
  shows "CrossOver d0 d1 ! i =
     (case (if i = 0 then None else NonZeroDifference None d0 d1 ! (i - 1), d0 ! i, d1 ! i) of
        (Some n, Some a, Some b) \<Rightarrow> Some (cross_value n a b)
      | _ \<Rightarrow> None)"
  using assms by (auto simp: CrossOver_def Let_def split: option.splits simp del: upt_Suc)

lemma run_Nil_iff: "run b xs = [] \<longleftrightarrow> xs = []"
  using run_length [of b xs] by (simp only: length_0_conv [symmetric])

lemma run_append:
  "run b (xs @ ys) = run b xs @ run (if xs = [] then b else snd (last (run b xs))) ys"
proof (induction xs arbitrary: b)
  case Nil
  show ?case by simp
next
  case (Cons x xs)
  obtain d c where x: "x = (d, c)" by (cases x)
  show ?case
    by (simp add: x Let_def Cons.IH run_Nil_iff)
qed

lemma NonZeroDifference_the:
  assumes "i < length d0" "i < length d1" "d0 ! i \<noteq> None" "d1 ! i \<noteq> None"
    "the (d0 ! i) \<noteq> the (d1 ! i)"
  shows "NonZeroDifference prev d0 d1 ! i = Some (the (d0 ! i) - the (d1 ! i))"
  using assms by (auto intro: NonZeroDifference_nonzero)

lemma sample_length: "length sample_closes = 252"
  by (simp add: sample_closes_def)

lemma sample_short:
  "i < 252 \<Longrightarrow> SimpleMovingAverage 50 sample_closes ! i =
     (if 50 \<le> Suc i
      then Some (sum_list (drop (Suc i - 50) (take (Suc i) sample_closes)) / 50) else None)"
  by (simp add: SimpleMovingAverage_nth_sum sample_length)

lemma sample_long:
  "i < 252 \<Longrightarrow> SimpleMovingAverage 200 sample_closes ! i =
     (if 200 \<le> Suc i
      then Some (sum_list (drop (Suc i - 200) (take (Suc i) sample_closes)) / 200) else None)"
  by (simp add: SimpleMovingAverage_nth_sum sample_length)

lemma sum_list_replicate_real: "sum_list (replicate n (c::real)) = real n * c"
  by (induction n) (simp_all add: algebra_simps)

lemma sample_take:
  "take b sample_closes =
   take b (replicate 150 2 @ replicate 50 1 @ [1000] @ replicate 50 1 @ [3])"
  by (simp add: sample_closes_def)

lemma sample_drop:
  "drop a sample_closes =
   drop a (replicate 150 2 @ replicate 50 1 @ [1000] @ replicate 50 1 @ [3])"
  by (simp add: sample_closes_def)

lemma sample_crossover_tail:
  "map (\<lambda>i. CrossOver (SimpleMovingAverage 50 sample_closes)
                 (SimpleMovingAverage 200 sample_closes) ! i) [200..<252] =
     [Some 1, Some 0] @ replicate 48 (Some 0) @ [Some (- 1), Some 0]"
  by (simp add: upt_rec_numeral CrossOver_nth NonZeroDifference_the SimpleMovingAverage_length
      sample_length sample_short sample_long cross_value_def sample_take sample_drop
      sum_list_replicate_real)
     (simp add: numeral_eq_Suc)

lemma crossover_before:
  assumes "i < l" "i < length data"
  shows "crossover (init s l data) ! i = None"
proof -
  define d0 where "d0 = SimpleMovingAverage s (map Close data)"
  define d1 where "d1 = SimpleMovingAverage l (map Close data)"
  have len: "length d0 = length data" "length d1 = length data"
    by (simp_all add: d0_def d1_def SimpleMovingAverage_length)
  have none: "d1 ! j = None" if "Suc j < l" "j < length data" for j
    using that by (simp add: d1_def SimpleMovingAverage_nth)
  have "CrossOver d0 d1 ! i = None"
  proof (cases "Suc i < l")
    case True
    with assms(2) none [of i] show ?thesis
      by (simp add: CrossOver_nth len split: option.splits)
  next
    case False
    show ?thesis
    proof (cases i)
      case 0
      with assms(2) show ?thesis by (simp add: CrossOver_nth len)
    next
      case (Suc j)
      with assms have j: "Suc j < l" "j < length data" by simp_all
      from none [OF j] j(2) have "NonZeroDifference None d0 d1 ! j = None"
        by (intro NonZeroDifference_None) (simp_all add: len)
      with Suc assms(2) show ?thesis by (simp add: CrossOver_nth len)
    qed
  qed
  then show ?thesis by (simp add: init_def Let_def d0_def d1_def)
qed

lemma run_idle:
  assumes "pending b = None"
    and "\<And>x. x \<in> set xs \<Longrightarrow>
           (case snd x of None \<Rightarrow> None | Some c \<Rightarrow> next_bar (position b) c) = None"
  shows "run b xs = map (\<lambda>x. (None, b)) xs"
  using assms
proof (induction xs)
  case Nil
  show ?case by simp
next
  case (Cons x xs)
  obtain d c where x: "x = (d, c)" by (cases x)
  have bn: "broker_next b d = b"
    using Cons.prems(1) by (simp add: broker_next_def)
  have eq: "b\<lparr>pending := None\<rparr> = b"
    using Cons.prems(1) by simp
  have "(case c of None \<Rightarrow> None | Some c \<Rightarrow> next_bar (position b) c) = None"
    using Cons.prems(2) [of x] by (simp add: x)
  then have "run b (x # xs) = (None, b) # run b xs"
    by (simp add: x Let_def bn eq)
  with Cons show ?case by simp
qed

lemma map_Close_flat_bar: "map (Close \<circ> flat_bar) xs = xs"
  by (induction xs) (simp_all add: flat_bar_def)

lemma sample_crossover:
  "crossover (init 50 200 sample_bars) =
     replicate 200 None @ [Some 1, Some 0] @ replicate 48 (Some 0) @ [Some (- 1), Some 0]"
proof -
  define co where "co = crossover (init 50 200 sample_bars)"
  have len: "length co = 252"
    by (simp add: co_def crossover_length sample_bars_def sample_length)
  have co: "co = CrossOver (SimpleMovingAverage 50 sample_closes)
                 (SimpleMovingAverage 200 sample_closes)"
    by (simp add: co_def init_def Let_def sample_bars_def map_Close_flat_bar)
  have "take 200 co = replicate 200 None"
  proof (rule nth_equalityI)
    show "length (take 200 co) = length (replicate 200 None :: real option list)"
      by (simp add: len)
  next
    fix i assume "i < length (take 200 co)"
    then have "i < 200" by simp
    then show "take 200 co ! i = replicate 200 None ! i"
      using crossover_before [of i 200 sample_bars 50]
      by (simp add: co_def sample_bars_def sample_length)
  qed
  moreover have "drop 200 co = map (\<lambda>i. co ! i) [200..<252]"
    using drop_take_nth [of 252 co 200] by (simp add: len)
  ultimately have "co = replicate 200 None @ map (\<lambda>i. co ! i) [200..<252]"
    using append_take_drop_id [of 200 co] by simp
  then show ?thesis
    unfolding co_def [symmetric] by (simp only: co sample_crossover_tail)
qed

lemma sample_bars_split:
  "sample_bars =
     map flat_bar (replicate 150 2 @ replicate 50 1) @ map flat_bar [1000, 1] @
     map flat_bar (replicate 48 1) @ map flat_bar [1, 3]"
proof -
  have "replicate 50 (1::real) = [1] @ replicate 48 1 @ [1]"
    by (simp add: numeral_eq_Suc)
  then show ?thesis
    by (simp add: sample_bars_def sample_closes_def)
qed

lemma zip_append4:
  assumes "length a = length a'" "length b = length b'" "length c = length c'"
  shows "zip (a @ b @ c @ d) (a' @ b' @ c' @ d') = zip a a' @ zip b b' @ zip c c' @ zip d d'"
  using assms by simp

lemma sample_run_trace:
  "run (setcash 100000) (zip sample_bars (crossover (init 50 200 sample_bars))) = sample_trace"
proof -
  define A where "A = zip (map flat_bar (replicate 150 2 @ replicate 50 1)) (replicate 200 (None :: real option))"
  define B where "B = zip (map flat_bar [1000, 1]) [Some 1, Some (0::real)]"
  define C where "C = zip (map flat_bar (replicate 48 1)) (replicate 48 (Some (0::real)))"
  define D where "D = zip (map flat_bar [1, 3]) [Some (- 1), Some (0::real)]"
  define b1 where "b1 = \<lparr>cash = 99999, position = 1, pending = None\<rparr>"
  have z: "zip sample_bars (crossover (init 50 200 sample_bars)) = A @ B @ C @ D"
    unfolding A_def B_def C_def D_def
    by (subst sample_crossover, subst sample_bars_split, rule zip_append4) simp_all
  have lenA: "length A = 200" and lenC: "length C = 48"
    by (simp_all add: A_def C_def)
  have rA: "run (setcash 100000) A = replicate 200 (None, setcash 100000)"
  proof -
    have "run (setcash 100000) A = map (\<lambda>x. (None, setcash 100000)) A"
      by (rule run_idle) (auto simp: setcash_def A_def dest: set_zip_rightD)
    then show ?thesis by (simp add: map_replicate_const lenA)
  qed
  have rB: "run (setcash 100000) B =
     [(Some Buy, \<lparr>cash = 100000, position = 0, pending = Some (Buy, 1000)\<rparr>), (None, b1)]"
    by (simp add: B_def setcash_def flat_bar_def Let_def broker_next_def next_bar_def stake_def
        b1_def)
  have rC: "run b1 C = replicate 48 (None, b1)"
  proof -
    have "run b1 C = map (\<lambda>x. (None, b1)) C"
      by (rule run_idle) (auto simp: b1_def C_def next_bar_def dest: set_zip_rightD)
    then show ?thesis by (simp add: map_replicate_const lenC)
  qed
  have rD: "run b1 D =
     [(Some Sell, \<lparr>cash = 99999, position = 1, pending = Some (Sell, 1)\<rparr>),
      (None, \<lparr>cash = 100002, position = 0, pending = None\<rparr>)]"
    by (simp add: D_def flat_bar_def Let_def broker_next_def next_bar_def stake_def b1_def)
  have nA: "A \<noteq> []" and nB: "B \<noteq> []" and nC: "C \<noteq> []"
    using lenA lenC by (auto simp: B_def)
  have "run (setcash 100000) (A @ B @ C @ D) =
     replicate 200 (None, setcash 100000) @
     [(Some Buy, \<lparr>cash = 100000, position = 0, pending = Some (Buy, 1000)\<rparr>), (None, b1)] @
     replicate 48 (None, b1) @
     [(Some Sell, \<lparr>cash = 99999, position = 1, pending = Some (Sell, 1)\<rparr>),
      (None, \<lparr>cash = 100002, position = 0, pending = None\<rparr>)]"
    by (simp add: run_append [of _ A] run_append [of _ B] run_append [of _ C] nA nB nC rA rB rC rD)
  then show ?thesis
    by (simp add: z b1_def sample_trace_def setcash_def)
qed

lemma sample_bars_length: "length sample_bars = 252"
  by (simp add: sample_bars_def sample_length)

lemma sample_bars_nth:
  "sample_bars ! 200 = flat_bar 1000" "sample_bars ! 201 = flat_bar 1"
  "sample_bars ! 250 = flat_bar 1" "sample_bars ! 251 = flat_bar 3"
  by (simp_all add: sample_bars_split nth_append)

lemma sample_run:
  "backtest symbol sample_bars output = Inr (path_join output (symbol @ ''_backtest_results.json''), sample_trace)"
  by (simp add: backtest_run sample_bars_length sample_run_trace)

lemma sample_trace_nth:
  "sample_trace ! 199 = (None, \<lparr>cash = 100000, position = 0, pending = None\<rparr>)"
  "sample_trace ! 200 =
     (Some Buy, \<lparr>cash = 100000, position = 0, pending = Some (Buy, 1000)\<rparr>)"
  "sample_trace ! 201 = (None, \<lparr>cash = 99999, position = 1, pending = None\<rparr>)"
  "sample_trace ! 249 = (None, \<lparr>cash = 99999, position = 1, pending = None\<rparr>)"
  "sample_trace ! 250 =
     (Some Sell, \<lparr>cash = 99999, position = 1, pending = Some (Sell, 1)\<rparr>)"
  "sample_trace ! 251 = (None, \<lparr>cash = 100002, position = 0, pending = None\<rparr>)"
  by (simp_all add: sample_trace_def nth_append)

lemma sample_crossover_nth:
  "crossover (init 50 200 sample_bars) ! 200 = Some 1"
  "crossover (init 50 200 sample_bars) ! 201 = Some 0"
  "crossover (init 50 200 sample_bars) ! 250 = Some (- 1)"
  "crossover (init 50 200 sample_bars) ! 251 = Some 0"
  by (simp_all add: sample_crossover nth_append)

section \<open>Orders and fills\<close>

lemma run_orders:
  assumes "tr = run (setcash 100000) (zip data (crossover (init 50 200 data)))"
    and "i < length data"
    and "before = (if i = 0 then setcash 100000 else snd (tr ! (i - 1)))"
    and "after = snd (tr ! i)"
  shows "length tr = length data \<and>
    (position before = 0 \<or> position before = 1) \<and>
    (position after = 0 \<or> position after = 1) \<and>
    fst (tr ! i) =
      (case crossover (init 50 200 data) ! i of
         None \<Rightarrow> None
       | Some c \<Rightarrow>
           if position after = 0 then (if 0 < c then Some Buy else None)
           else if c < 0 then Some Sell
           else None) \<and>
    pending after = map_option (\<lambda>x. (x, Close (data ! i))) (fst (tr ! i)) \<and>
    (case pending before of
       None \<Rightarrow> cash after = cash before \<and> position after = position before
     | Some (Buy, created) \<Rightarrow>
         position before = 0 \<and>
         (if created \<le> cash before \<and> Open (data ! i) \<le> cash before
          then cash after = cash before - Open (data ! i) \<and> position after = 1
          else cash after = cash before \<and> position after = 0)
     | Some (Sell, created) \<Rightarrow>
         position before = 1 \<and> cash after = cash before + Open (data ! i) \<and>
         position after = 0)"
proof -
  define cross where "cross = crossover (init 50 200 data)"
  define xs where "xs = zip data cross"
  have tr: "tr = run (setcash 100000) xs"
    by (simp add: assms(1) xs_def cross_def)
  have len: "length xs = length data"
    by (simp add: xs_def cross_def crossover_length)
  have i: "i < length xs" using assms(2) len by simp
  have xi: "fst (xs ! i) = data ! i" "snd (xs ! i) = cross ! i"
    using i by (simp_all add: xs_def)
  have cb: "consistent before"
  proof (cases i)
    case 0
    then show ?thesis by (simp add: assms(3) consistent_setcash)
  next
    case (Suc j)
    with i have "j < length xs" by simp
    from run_consistent [OF consistent_setcash this, of 100000] Suc show ?thesis
      by (simp add: assms(3) tr)
  qed
  define b1 where "b1 = broker_next before (data ! i)"
  define ord where "ord = (case cross ! i of None \<Rightarrow> None | Some c \<Rightarrow> next_bar (position b1) c)"
  have step: "tr ! i = (ord, b1\<lparr>pending := map_option (\<lambda>x. (x, Close (data ! i))) ord\<rparr>)"
  proof -
    have bf: "(if i = 0 then setcash 100000 else snd (run (setcash 100000) xs ! (i - 1))) = before"
      by (simp add: assms(3) tr)
    show ?thesis
      unfolding tr b1_def ord_def run_nth [OF i, of "setcash 100000"] Let_def bf xi ..
  qed
  have a: "position after = position b1" "cash after = cash b1"
    "pending after = map_option (\<lambda>x. (x, Close (data ! i))) ord" "fst (tr ! i) = ord"
    by (simp_all add: assms(4) step)
  have l: "length tr = length data"
    by (simp add: tr run_length len)
  have pb: "position before = 0 \<or> position before = 1"
    using cb by (auto simp: consistent_def split: option.splits order.splits)
  have pa: "position after = 0 \<or> position after = 1"
    using broker_next_consistent(2) [OF cb, of "data ! i"] by (simp add: a b1_def)
  have o: "fst (tr ! i) =
      (case crossover (init 50 200 data) ! i of
         None \<Rightarrow> None
       | Some c \<Rightarrow>
           if position after = 0 then (if 0 < c then Some Buy else None)
           else if c < 0 then Some Sell
           else None)"
    by (simp add: a ord_def cross_def next_bar_def split: option.splits)
  have f: "case pending before of
       None \<Rightarrow> cash after = cash before \<and> position after = position before
     | Some (Buy, created) \<Rightarrow>
         position before = 0 \<and>
         (if created \<le> cash before \<and> Open (data ! i) \<le> cash before
          then cash after = cash before - Open (data ! i) \<and> position after = 1
          else cash after = cash before \<and> position after = 0)
     | Some (Sell, created) \<Rightarrow>
         position before = 1 \<and> cash after = cash before + Open (data ! i) \<and>
         position after = 0"
    unfolding a(1,2) b1_def by (rule fill_cases [OF cb])
  from l pb pa o a(3) f show ?thesis
    by (simp only: a(4))
qed

text \<open>
  C1, as amended. Every run of the backtest on more than 200 bars (a shorter feed aborts),
  started with no unit held and 100000 in cash, returns a trace with one entry for each
  bar, in which the position is always 0 or 1 unit. On a bar where \<open>next\<close> runs (the
  crossover has a value) with no unit held and a positive crossover, a market buy order is
  created, and with a unit held and a negative crossover a market sell order is created;
  no order is created on any other bar. An order is matched on the bar after the one that
  created it, at that bar's opening price and for one unit: a buy (if the cash covers one
  unit at the close of the creating bar and at the opening price) takes the price from the
  cash and makes the position 1, a sell adds the price to the cash and makes the position
  0, so that it sells the entire holding. A bar that follows no order changes neither cash
  nor position.
\<close>

theorem crossover_orders:
  assumes "200 < length data" and "i < length data"
  shows "\<exists>tr.
     backtest symbol data output = Inr (path_join output (symbol @ ''_backtest_results.json''), tr) \<and>
     length tr = length data \<and>
     (let before = (if i = 0 then setcash 100000 else snd (tr ! (i - 1)));
          after = snd (tr ! i)
      in (position before = 0 \<or> position before = 1) \<and>
        (position after = 0 \<or> position after = 1) \<and>
        fst (tr ! i) =
          (case crossover (init 50 200 data) ! i of
             None \<Rightarrow> None
           | Some c \<Rightarrow>
               if position after = 0 then (if 0 < c then Some Buy else None)
               else if c < 0 then Some Sell
               else None) \<and>
        pending after = map_option (\<lambda>x. (x, Close (data ! i))) (fst (tr ! i)) \<and>
        (case pending before of
           None \<Rightarrow> cash after = cash before \<and> position after = position before
         | Some (Buy, created) \<Rightarrow>
             position before = 0 \<and>
             (if created \<le> cash before \<and> Open (data ! i) \<le> cash before
              then cash after = cash before - Open (data ! i) \<and> position after = 1
              else cash after = cash before \<and> position after = 0)
         | Some (Sell, created) \<Rightarrow>
             position before = 1 \<and> cash after = cash before + Open (data ! i) \<and>
             position after = 0))"
proof -
  define tr where "tr = run (setcash 100000) (zip data (crossover (init 50 200 data)))"
  have "backtest symbol data output = Inr (path_join output (symbol @ ''_backtest_results.json''), tr)"
    using assms(1) by (simp add: backtest_run tr_def)
  moreover note run_orders [OF tr_def assms(2) refl refl]
  ultimately show ?thesis
    unfolding Let_def by blast
qed

theorem crossover_orders_witness:
  "(200::nat) < length sample_bars \<and> (201::nat) < length sample_bars \<and>
   (250::nat) < length sample_bars \<and>
   backtest ''AAPL'' sample_bars ''backtest_results'' =
     Inr (''backtest_results/AAPL_backtest_results.json'', sample_trace) \<and>
   crossover (init 50 200 sample_bars) ! 200 = Some 1 \<and>
   sample_trace ! 200 =
     (Some Buy, \<lparr>cash = 100000, position = 0, pending = Some (Buy, 1000)\<rparr>) \<and>
   Open (sample_bars ! 201) = 1 \<and>
   sample_trace ! 201 = (None, \<lparr>cash = 99999, position = 1, pending = None\<rparr>) \<and>
   crossover (init 50 200 sample_bars) ! 250 = Some (- 1) \<and>
   sample_trace ! 249 = (None, \<lparr>cash = 99999, position = 1, pending = None\<rparr>) \<and>
   sample_trace ! 250 =
     (Some Sell, \<lparr>cash = 99999, position = 1, pending = Some (Sell, 1)\<rparr>)"
proof -
  have l: "(200::nat) < length sample_bars" "(201::nat) < length sample_bars"
    "(250::nat) < length sample_bars"
    by (simp_all add: sample_bars_length)
  from crossover_orders [OF l(1) l(2), of "''AAPL''" "''backtest_results''"]
  obtain tr where a: "backtest ''AAPL'' sample_bars ''backtest_results'' =
      Inr (path_join ''backtest_results'' (''AAPL'' @ ''_backtest_results.json''), tr)"
    "position (snd (tr ! 201)) = 0 \<or> position (snd (tr ! 201)) = 1"
    unfolding Let_def by blast
  from crossover_orders [OF l(1) l(3), of "''AAPL''" "''backtest_results''"]
  obtain tr' where b: "backtest ''AAPL'' sample_bars ''backtest_results'' =
      Inr (path_join ''backtest_results'' (''AAPL'' @ ''_backtest_results.json''), tr')"
    "fst (tr' ! 250) =
       (case crossover (init 50 200 sample_bars) ! 250 of
          None \<Rightarrow> None
        | Some c \<Rightarrow>
            if position (snd (tr' ! 250)) = 0 then (if 0 < c then Some Buy else None)
            else if c < 0 then Some Sell
            else None)"
    unfolding Let_def by blast
  from a(1) have "tr = sample_trace" by (simp add: sample_run)
  with a have r: "backtest ''AAPL'' sample_bars ''backtest_results'' =
     Inr (''backtest_results/AAPL_backtest_results.json'', sample_trace)"
    by (simp add: path_join_def)
  show ?thesis
    using l r by (simp add: sample_trace_nth sample_crossover_nth sample_bars_nth flat_bar_def)
qed

text \<open>
  On the sample bars the backtest holds nothing before bar 200, where the crossover is
  positive and the close is 1000: after that bar the cash is still 100000 and no unit is
  held, and after bar 201, which opens at 1, one unit is held and the cash is 99999. On
  bar 250 the crossover is negative and the close is 1: the unit is still held after that
  bar, and it is sold on bar 251 at its opening price 3.
\<close>

theorem crossover_orders_counterexample:
  "backtest ''AAPL'' sample_bars ''backtest_results'' =
     Inr (''backtest_results/AAPL_backtest_results.json'', sample_trace) \<and>
   crossover (init 50 200 sample_bars) ! 200 = Some 1 \<and>
   Close (sample_bars ! 200) = 1000 \<and>
   snd (sample_trace ! 199) = \<lparr>cash = 100000, position = 0, pending = None\<rparr> \<and>
   snd (sample_trace ! 200) = \<lparr>cash = 100000, position = 0, pending = Some (Buy, 1000)\<rparr> \<and>
   Open (sample_bars ! 201) = 1 \<and>
   snd (sample_trace ! 201) = \<lparr>cash = 99999, position = 1, pending = None\<rparr> \<and>
   crossover (init 50 200 sample_bars) ! 250 = Some (- 1) \<and>
   Close (sample_bars ! 250) = 1 \<and>
   snd (sample_trace ! 250) = \<lparr>cash = 99999, position = 1, pending = Some (Sell, 1)\<rparr> \<and>
   Open (sample_bars ! 251) = 3 \<and>
   snd (sample_trace ! 251) = \<lparr>cash = 100002, position = 0, pending = None\<rparr>"
  by (simp add: sample_run path_join_def sample_trace_nth sample_crossover_nth sample_bars_nth
      flat_bar_def)

section \<open>Periods and short feeds\<close>

lemma run_before:
  assumes "i < l" "i < length data"
  shows "run (setcash c) (zip data (crossover (init s l data))) ! i = (None, setcash c)"
proof -
  define xs where "xs = zip data (crossover (init s l data))"
  have len: "length xs = length data"
    by (simp add: xs_def crossover_length)
  have none: "snd x = None" if "x \<in> set (take l xs)" for x
  proof -
    from that obtain j where j: "j < length (take l xs)" "x = take l xs ! j"
      by (auto simp: in_set_conv_nth)
    then have "j < l" "j < length data" using len by simp_all
    with j(2) crossover_before [of j l data s] show ?thesis
      by (simp add: xs_def crossover_length)
  qed
  have idle: "run (setcash c) (take l xs) = map (\<lambda>x. (None, setcash c)) (take l xs)"
    using none by (intro run_idle) (simp_all add: setcash_def)
  have "run (setcash c) xs = run (setcash c) (take l xs @ drop l xs)"
    by simp
  also have "\<dots> = run (setcash c) (take l xs) @
      run (if take l xs = [] then setcash c else snd (last (run (setcash c) (take l xs))))
        (drop l xs)"
    by (rule run_append)
  finally have "run (setcash c) xs ! i = run (setcash c) (take l xs) ! i"
    using assms len by (simp add: nth_append run_length)
  also have "\<dots> = (None, setcash c)"
    using assms len by (simp add: idle)
  finally show ?thesis by (simp add: xs_def)
qed

text \<open>
  C10. The run of the backtest does not depend on \<open>symbol\<close> or \<open>output\<close>, which only
  name the result file: it is the run of the engine from 100000 in cash on the crossover
  of the simple moving averages of the closes with the periods 50 and 200, each the mean
  of the closes in its window once the window is full. A feed of fewer than 200 bars (and
  one of 200) aborts, so that it produces no trade; on a longer feed no order is created
  and neither cash nor position changes before the bar of index 200.
\<close>

theorem fixed_periods:
  shows "map_sum id snd (backtest symbol data output) = cerebro_run 50 200 100000 data \<and>
    map_sum id snd (backtest symbol data output) =
      map_sum id snd (backtest symbol' data output') \<and>
    crossover (init 50 200 data) =
      CrossOver (short_ma (init 50 200 data)) (long_ma (init 50 200 data)) \<and>
    (\<forall>i<length data.
       short_ma (init 50 200 data) ! i =
         (if 50 \<le> Suc i then Some (window_mean (map Close data) 50 i) else None) \<and>
       long_ma (init 50 200 data) ! i =
         (if 200 \<le> Suc i then Some (window_mean (map Close data) 200 i) else None)) \<and>
    (length data < 200 \<longrightarrow> backtest symbol data output = Inl IndexError) \<and>
    (length data = 200 \<longrightarrow> backtest symbol data output = Inl IndexError) \<and>
    (200 < length data \<longrightarrow>
       (\<exists>tr. backtest symbol data output =
               Inr (path_join output (symbol @ ''_backtest_results.json''), tr) \<and>
             tr = run (setcash 100000) (zip data (crossover (init 50 200 data))) \<and>
             length tr = length data \<and>
             (\<forall>i<200. tr ! i = (None, setcash 100000))))"
proof (intro conjI allI impI)
  show "map_sum id snd (backtest symbol data output) = cerebro_run 50 200 100000 data"
    by (simp add: backtest_def split: sum.splits)
  then show "map_sum id snd (backtest symbol data output) =
      map_sum id snd (backtest symbol' data output')"
    by (simp add: backtest_def split: sum.splits)
  show "crossover (init 50 200 data) =
      CrossOver (short_ma (init 50 200 data)) (long_ma (init 50 200 data))"
    by (simp add: init_def Let_def)
next
  fix i assume "i < length data"
  then show "short_ma (init 50 200 data) ! i =
         (if 50 \<le> Suc i then Some (window_mean (map Close data) 50 i) else None)"
    by (simp add: init_def Let_def SimpleMovingAverage_nth)
next
  fix i assume "i < length data"
  then show "long_ma (init 50 200 data) ! i =
         (if 200 \<le> Suc i then Some (window_mean (map Close data) 200 i) else None)"
    by (simp add: init_def Let_def SimpleMovingAverage_nth)
next
  assume "length data < 200"
  then show "backtest symbol data output = Inl IndexError"
    by (intro backtest_abort) simp
next
  assume "length data = 200"
  then show "backtest symbol data output = Inl IndexError"
    by (intro backtest_abort) simp
next
  assume long: "200 < length data"
  define tr where "tr = run (setcash 100000) (zip data (crossover (init 50 200 data)))"
  have "tr ! i = (None, setcash 100000)" if "i < 200" for i
    using that long run_before [of i 200 data 100000 50] by (simp add: tr_def)
  moreover have "length tr = length data"
    by (simp add: tr_def run_length crossover_length)
  moreover have "backtest symbol data output = Inr (path_join output (symbol @ ''_backtest_results.json''), tr)"
    using long by (simp add: backtest_run tr_def)
  ultimately show "\<exists>tr. backtest symbol data output =
               Inr (path_join output (symbol @ ''_backtest_results.json''), tr) \<and>
             tr = run (setcash 100000) (zip data (crossover (init 50 200 data))) \<and>
             length tr = length data \<and>
             (\<forall>i<200. tr ! i = (None, setcash 100000))"
    unfolding tr_def by blast
qed

theorem fixed_periods_witness:
  "length sample_feed < 200 \<and> (4::nat) < length sample_feed \<and>
   backtest ''AAPL'' sample_feed ''backtest_results'' = Inl IndexError \<and>
   backtest ''MSFT'' sample_feed ''results'' = Inl IndexError \<and>
   short_ma (init 50 200 sample_feed) ! 4 = None \<and>
   long_ma (init 50 200 sample_feed) ! 4 = None \<and>
   length (take 200 sample_bars) = 200 \<and>
   backtest ''AAPL'' (take 200 sample_bars) ''backtest_results'' = Inl IndexError \<and>
   200 < length sample_bars \<and>
   backtest ''AAPL'' sample_bars ''backtest_results'' =
     Inr (''backtest_results/AAPL_backtest_results.json'', sample_trace) \<and>
   sample_trace ! 199 = (None, \<lparr>cash = 100000, position = 0, pending = None\<rparr>)"
proof -
  have l: "length sample_feed < 200" "(4::nat) < length sample_feed"
    "length (take 200 sample_bars) = 200" "200 < length sample_bars"
    by (simp_all add: sample_feed_def sample_bars_length)
  note f = fixed_periods [of "''AAPL''" sample_feed "''backtest_results''" "''MSFT''" "''results''"]
  note g = fixed_periods [of "''MSFT''" sample_feed "''results''"]
  note h = fixed_periods [of "''AAPL''" "take 200 sample_bars" "''backtest_results''"]
  note k = fixed_periods [of "''AAPL''" sample_bars "''backtest_results''"]
  from f l have a: "backtest ''AAPL'' sample_feed ''backtest_results'' = Inl IndexError"
    by blast
  from g l have b: "backtest ''MSFT'' sample_feed ''results'' = Inl IndexError"
    by blast
  from f l have m: "short_ma (init 50 200 sample_feed) ! 4 = None"
    "long_ma (init 50 200 sample_feed) ! 4 = None"
    by simp_all
  from h l have c: "backtest ''AAPL'' (take 200 sample_bars) ''backtest_results'' = Inl IndexError"
    by blast
  from k l obtain tr where "backtest ''AAPL'' sample_bars ''backtest_results'' =
      Inr (path_join ''backtest_results'' (''AAPL'' @ ''_backtest_results.json''), tr)"
    by blast
  then have d: "backtest ''AAPL'' sample_bars ''backtest_results'' =
     Inr (''backtest_results/AAPL_backtest_results.json'', sample_trace)"
    by (simp add: sample_run path_join_def)
  show ?thesis
    by (intro conjI) (rule l a b m c d sample_trace_nth)+
qed




end
